theory Spec2Isabelle
  imports Main
begin

section \<open>go\_logger: leveled logging with daily rotation and one-shot configuration\<close>

text \<open>
  A shallow embedding of \<^verbatim>\<open>logger.go\<close>. Package-level variables become the fields of
  the record \<open>state\<close>; every function of the package takes the state and returns the
  new one. What the package asks of the operating system and of Go's standard library
  (the clock, directory creation, the timezone database, opening a file, \<^verbatim>\<open>fmt.Sprintf\<close>)
  is read from a record \<open>world\<close>, the answers the outside gives during one call.
  Locks are not modelled: the embedding is the sequential behaviour of the package.
\<close>

subsection \<open>Levels\<close>

datatype logLevel = levelDebug | levelInfo | levelWarning | levelError

text \<open>\<^verbatim>\<open>levelString\<close>; the source's \<^verbatim>\<open>default: "UNKNOWN"\<close> branch has no value of the
  enumeration left to match.\<close>

fun levelString :: "logLevel \<Rightarrow> string" where
  "levelString levelDebug = ''DEBUG''"
| "levelString levelInfo = ''INFO''"
| "levelString levelWarning = ''WARNING''"
| "levelString levelError = ''ERROR''"

subsection \<open>Time values and \<^verbatim>\<open>Time.Format\<close>\<close>

text \<open>A \<^verbatim>\<open>time.Time\<close> already converted to a location, by the fields that
  \<^verbatim>\<open>Date()\<close>, \<^verbatim>\<open>Clock()\<close> and \<^verbatim>\<open>Nanosecond()\<close> return.\<close>

record gotime =
  year :: int
  month :: nat
  day :: nat
  hour :: nat
  minute :: nat
  second :: nat
  nanosecond :: nat

definition digitChar :: "nat \<Rightarrow> char" where
  "digitChar n = ''0123456789'' ! (n mod 10)"

fun digitsOf :: "nat \<Rightarrow> string" where
  "digitsOf n = (if n < 10 then [digitChar n] else digitsOf (n div 10) @ [digitChar n])"

text \<open>\<^verbatim>\<open>appendInt(b, x, width)\<close> of package time: a sign for a negative number, then the
  decimal digits, padded with zeros on the left up to \<open>width\<close>.\<close>

definition appendInt :: "int \<Rightarrow> nat \<Rightarrow> string" where
  "appendInt x width =
     (let ds = digitsOf (nat \<bar>x\<bar>)
      in (if x < 0 then ''-'' else []) @ replicate (width - length ds) (CHR ''0'') @ ds)"

text \<open>\<^verbatim>\<open>appendNano\<close> for a layout element \<^verbatim>\<open>.000000\<close>: the separator, then the first
  \<open>n\<close> digits of the nanoseconds written on nine digits.\<close>

definition appendNano :: "nat \<Rightarrow> nat \<Rightarrow> string" where
  "appendNano nanosec n = CHR ''.'' # take n (appendInt (int nanosec) 9)"

text \<open>\<^verbatim>\<open>Time.Format(layout)\<close>, for the layout elements the package uses: \<^verbatim>\<open>2006\<close>,
  \<^verbatim>\<open>01\<close>, \<^verbatim>\<open>02\<close>, \<^verbatim>\<open>15\<close>, \<^verbatim>\<open>04\<close>, \<^verbatim>\<open>05\<close> and \<^verbatim>\<open>.000000\<close>. Every other
  byte of the two layouts of the source is copied as it is.\<close>

function time_Format :: "gotime \<Rightarrow> string \<Rightarrow> string" where
  "time_Format t layout =
     (if layout = [] then []
      else if take 4 layout = ''2006'' then appendInt (year t) 4 @ time_Format t (drop 4 layout)
      else if take 2 layout = ''01'' then appendInt (int (month t)) 2 @ time_Format t (drop 2 layout)
      else if take 2 layout = ''02'' then appendInt (int (day t)) 2 @ time_Format t (drop 2 layout)
      else if take 2 layout = ''15'' then appendInt (int (hour t)) 2 @ time_Format t (drop 2 layout)
      else if take 2 layout = ''04'' then appendInt (int (minute t)) 2 @ time_Format t (drop 2 layout)
      else if take 2 layout = ''05'' then appendInt (int (second t)) 2 @ time_Format t (drop 2 layout)
      else if take 7 layout = ''.000000'' then appendNano (nanosecond t) 6 @ time_Format t (drop 7 layout)
      else hd layout # time_Format t (tl layout))"
  by pat_completeness auto
termination
  by (relation "measure (\<lambda>(t, layout). length layout)") (auto simp: neq_Nil_conv)

declare time_Format.simps [simp del]

text \<open>\<^verbatim>\<open>timePrefix\<close>, with the layout string of the source.\<close>

definition timePrefix :: "gotime \<Rightarrow> string" where
  "timePrefix now = time_Format now ''2006/01/02 15:04:05.000000''"

text \<open>The day key: \<^verbatim>\<open>Format("2006-01-02")\<close>, as \<^verbatim>\<open>rotateIfNeeded\<close>, \<^verbatim>\<open>createLogger\<close>,
  \<^verbatim>\<open>init\<close> and \<^verbatim>\<open>SetTimezone\<close> compute it.\<close>

definition dayKey :: "gotime \<Rightarrow> string" where
  "dayKey now = time_Format now ''2006-01-02''"

subsection \<open>\<^verbatim>\<open>filepath.Clean\<close> and \<^verbatim>\<open>filepath.Join\<close> (separator \<^verbatim>\<open>/\<close>)\<close>

fun splitSlash :: "string \<Rightarrow> string list" where
  "splitSlash [] = [[]]"
| "splitSlash (c # cs) =
     (if c = CHR ''/'' then [] # splitSlash cs
      else (case splitSlash cs of [] \<Rightarrow> [[c]] | e # es \<Rightarrow> (c # e) # es))"

fun joinWith :: "string \<Rightarrow> string list \<Rightarrow> string" where
  "joinWith sep [] = []"
| "joinWith sep [x] = x"
| "joinWith sep (x # y # ys) = x @ sep @ joinWith sep (y # ys)"

text \<open>The elements \<^verbatim>\<open>Clean\<close> keeps, read left to right; \<open>acc\<close> is the output so far,
  last element first. Empty elements and \<^verbatim>\<open>.\<close> are dropped; \<^verbatim>\<open>..\<close> removes the
  element before it, is dropped at the root, and is kept at the start of a relative
  path.\<close>

fun cleanElems :: "bool \<Rightarrow> string list \<Rightarrow> string list \<Rightarrow> string list" where
  "cleanElems rooted acc [] = rev acc"
| "cleanElems rooted acc (e # es) =
     (if e = [] \<or> e = ''.'' then cleanElems rooted acc es
      else if e = ''..'' then
        (case acc of
           [] \<Rightarrow> if rooted then cleanElems rooted [] es else cleanElems rooted [''..''] es
         | a # as \<Rightarrow>
             if a = ''..'' then cleanElems rooted (''..'' # acc) es
             else cleanElems rooted as es)
      else cleanElems rooted (e # acc) es)"

definition filepath_Clean :: "string \<Rightarrow> string" where
  "filepath_Clean path =
     (if path = [] then ''.''
      else
        let rooted = (hd path = CHR ''/'');
            out = joinWith ''/'' (cleanElems rooted [] (splitSlash path))
        in if rooted then CHR ''/'' # out else if out = [] then ''.'' else out)"

text \<open>\<^verbatim>\<open>filepath.Join(a, b)\<close>: the elements from the first non-empty one on, joined by
  the separator, then cleaned; the empty string when both are empty.\<close>

definition filepath_Join :: "string \<Rightarrow> string \<Rightarrow> string" where
  "filepath_Join a b =
     (if a \<noteq> [] then filepath_Clean (a @ ''/'' @ b)
      else if b \<noteq> [] then filepath_Clean b
      else [])"

subsection \<open>\<^verbatim>\<open>fmt.Sprintln\<close> and \<^verbatim>\<open>log.Logger.Output\<close>\<close>

abbreviation newline :: char where
  "newline \<equiv> CHR 0x0A"

text \<open>\<^verbatim>\<open>fmt.Sprintln\<close>: operands (given by their default rendering) separated by single
  spaces, followed by a newline.\<close>

definition Sprintln :: "string list \<Rightarrow> string" where
  "Sprintln operands = joinWith '' '' operands @ [newline]"

text \<open>\<^verbatim>\<open>log.Logger.Output\<close> for a logger made by \<^verbatim>\<open>log.New(w, "", 0)\<close>: no prefix and
  no header; a newline is appended when the message does not already end in one.\<close>

definition log_Output :: "string \<Rightarrow> string" where
  "log_Output msg = (if msg = [] \<or> last msg \<noteq> newline then msg @ [newline] else msg)"

subsection \<open>The outside world\<close>

datatype location = FixedZone string int | LoadedZone string

record world =
  Now :: "location \<Rightarrow> gotime"
  MkdirAll :: "string \<Rightarrow> bool"
  LoadLocation :: "string \<Rightarrow> location option"
  OpenFile :: "string \<Rightarrow> bool"
  Sprintf :: "string \<Rightarrow> string list \<Rightarrow> string"

text \<open>
  \<^item> \<open>Now w loc\<close> is \<^verbatim>\<open>time.Now().In(loc)\<close>;
  \<^item> \<open>MkdirAll w p\<close> holds when \<^verbatim>\<open>os.MkdirAll(p, os.ModePerm)\<close> returns no error;
  \<^item> \<open>LoadLocation w name\<close> is the result of \<^verbatim>\<open>time.LoadLocation(name)\<close>, \<open>None\<close> for an error;
  \<^item> \<open>OpenFile w p\<close> holds when \<^verbatim>\<open>os.OpenFile(p, O_CREATE|O_WRONLY|O_APPEND, 0666)\<close>
    returns no error;
  \<^item> \<open>Sprintf w format operands\<close> is \<^verbatim>\<open>fmt.Sprintf(format, operands...)\<close>.
\<close>

subsection \<open>Package state\<close>

text \<open>An \<^verbatim>\<open>io.Writer\<close>: one of the caller's extra writers (numbered), or an open file,
  named by the path it was opened with.\<close>

datatype writer = ExtraWriter nat | FileWriter string

text \<open>What the package prints through the standard logger of package log: the directory
  that could not be created (\<^verbatim>\<open>log.Println\<close> in \<^verbatim>\<open>SetDir\<close>), the timezone name
  that could not be loaded (\<^verbatim>\<open>log.Fatalln\<close> in \<^verbatim>\<open>SetTimezone\<close>), the file that
  could not be opened (\<^verbatim>\<open>log.Fatalln\<close> in \<^verbatim>\<open>ensureLoggerLocked\<close>).\<close>

datatype diagnostic = MkdirFailed string | LoadTimezoneFailed string | OpenFileFailed string

text \<open>The struct \<^verbatim>\<open>logger\<close>. The field \<open>logger\<close> is the \<^verbatim>\<open>*log.Logger\<close>: \<open>None\<close> for nil,
  otherwise the writers of its \<^verbatim>\<open>io.MultiWriter\<close>, in order. The field \<open>fileH\<close> is the
  \<^verbatim>\<open>*os.File\<close> (the source's field \<^verbatim>\<open>file\<close>): \<open>None\<close> for nil, otherwise the path of
  the open handle.\<close>

record logger =
  logger :: "writer list option"
  fileH :: "string option"
  fileName :: string
  level :: logLevel

text \<open>The four package-level logger variables.\<close>

datatype loggerVar = Debug | Info | Warning | Error

record state =
  loggers :: "loggerVar \<Rightarrow> logger option"
  dateStr :: string
  dateFast :: string
  started :: bool
  setTimezoneOnce :: bool
  appendWriterOnce :: bool
  setDirOnce :: bool
  dirPathValue :: string
  locationValue :: location
  writersValue :: "nat list"
  files :: "string \<Rightarrow> string option"
  buffers :: "nat \<Rightarrow> string"
  closedFiles :: "string list"
  stderr :: "diagnostic list"

text \<open>
  \<^item> \<open>loggers s Debug\<close>, ..., \<open>loggers s Error\<close> are the pointers \<^verbatim>\<open>Debug\<close>, \<^verbatim>\<open>Info\<close>,
    \<^verbatim>\<open>Warning\<close>, \<^verbatim>\<open>Error\<close> (\<open>None\<close> for nil);
  \<^item> \<open>setTimezoneOnce\<close>, \<open>appendWriterOnce\<close>, \<open>setDirOnce\<close> are the \<^verbatim>\<open>sync.Once\<close>
    values: \<open>True\<close> once \<^verbatim>\<open>Do\<close> has run its function;
  \<^item> \<open>files\<close> is the content of the log files, \<open>buffers\<close> what each extra writer has
    received, \<open>closedFiles\<close> the handles closed so far (latest first), \<open>stderr\<close> the
    diagnostics printed so far (latest first).
\<close>

text \<open>How a call ends: it returns, it ends the process (\<^verbatim>\<open>os.Exit\<close>, with the status and
  the state at that moment), or it dereferences a nil logger.\<close>

datatype outcome = Return state | Exit nat state | Panic

definition nowInLocation :: "world \<Rightarrow> state \<Rightarrow> gotime" where
  "nowInLocation w s = Now w (locationValue s)"

definition newLogger :: "logLevel \<Rightarrow> string \<Rightarrow> logger" where
  "newLogger lvl name = \<lparr>logger = None, fileH = None, fileName = name, level = lvl\<rparr>"

text \<open>\<^verbatim>\<open>newErrorLogger\<close> builds the same struct, embedded in an \<^verbatim>\<open>errorLogger\<close>.\<close>

definition newErrorLogger :: "logLevel \<Rightarrow> string \<Rightarrow> logger" where
  "newErrorLogger lvl name = \<lparr>logger = None, fileH = None, fileName = name, level = lvl\<rparr>"

text \<open>\<^verbatim>\<open>(*logger).setFileName\<close>, on the logger that the variable \<open>v\<close> points to.\<close>

definition setFileName :: "loggerVar \<Rightarrow> string \<Rightarrow> state \<Rightarrow> state" where
  "setFileName v name s =
     (case loggers s v of
        None \<Rightarrow> s
      | Some l \<Rightarrow>
          if fileName l = name then s
          else
            (case fileH l of
               Some h \<Rightarrow>
                 s\<lparr>loggers := (loggers s)(v \<mapsto> l\<lparr>logger := None, fileH := None, fileName := name\<rparr>),
                   closedFiles := h # closedFiles s\<rparr>
             | None \<Rightarrow> s\<lparr>loggers := (loggers s)(v \<mapsto> l\<lparr>fileName := name\<rparr>)\<rparr>))"

text \<open>One of the four blocks of \<^verbatim>\<open>rotateLocked\<close>: create the logger when the variable is
  nil, otherwise give it its new file name.\<close>

definition assignLogger :: "loggerVar \<Rightarrow> logger \<Rightarrow> state \<Rightarrow> state" where
  "assignLogger v fresh s =
     (case loggers s v of
        None \<Rightarrow> s\<lparr>loggers := (loggers s)(v \<mapsto> fresh)\<rparr>
      | Some l \<Rightarrow> setFileName v (fileName fresh) s)"

definition rotateLocked :: "string \<Rightarrow> state \<Rightarrow> state" where
  "rotateLocked date s0 =
     (let s = s0\<lparr>dateStr := date, dateFast := date\<rparr>;
          dirPath = dirPathValue s;
          debugFile = filepath_Join dirPath (date @ ''.debug.log'');
          infoFile = filepath_Join dirPath (date @ ''.info.log'');
          warningFile = filepath_Join dirPath (date @ ''.warning.log'');
          errorFile = filepath_Join dirPath (date @ ''.error.log'')
      in assignLogger Error (newErrorLogger levelError errorFile)
           (assignLogger Warning (newLogger levelWarning warningFile)
             (assignLogger Info (newLogger levelInfo infoFile)
               (assignLogger Debug (newLogger levelDebug debugFile) s))))"

text \<open>\<^verbatim>\<open>rotate\<close>: the unconditional rotation.\<close>

definition rotate' :: "string \<Rightarrow> state \<Rightarrow> state" where
  "rotate' date s = rotateLocked date s"

definition rotateIfDateChanged :: "string \<Rightarrow> state \<Rightarrow> state" where
  "rotateIfDateChanged date s = (if dateStr s \<noteq> date then rotateLocked date s else s)"

definition rotateIfNeeded :: "gotime \<Rightarrow> state \<Rightarrow> state" where
  "rotateIfNeeded now s =
     (let date = dayKey now
      in if dateFast s = date then s else rotateIfDateChanged date s)"

definition createLogger :: "world \<Rightarrow> state \<Rightarrow> state" where
  "createLogger w s = rotate' (dayKey (nowInLocation w s)) s"

text \<open>The package-level variables before \<^verbatim>\<open>init\<close> runs, and \<^verbatim>\<open>init\<close>.\<close>

definition zeroState :: state where
  "zeroState =
     \<lparr>loggers = (\<lambda>v. None), dateStr = [], dateFast = [], started = False,
      setTimezoneOnce = False, appendWriterOnce = False, setDirOnce = False,
      dirPathValue = [], locationValue = FixedZone ''UTC'' 0, writersValue = [],
      files = (\<lambda>p. None), buffers = (\<lambda>i. []), closedFiles = [], stderr = []\<rparr>"

definition init :: "world \<Rightarrow> state" where
  "init w =
     (let s = zeroState\<lparr>dirPathValue := [],
                        locationValue := FixedZone ''Asia/Shanghai'' (8 * 3600),
                        writersValue := [],
                        dateFast := []\<rparr>
      in rotate' (dayKey (nowInLocation w s)) s)"

subsection \<open>Configuration\<close>

definition freezeConfig :: "state \<Rightarrow> state" where
  "freezeConfig s = (if started s then s else s\<lparr>started := True\<rparr>)"

definition SetTimezone :: "world \<Rightarrow> string \<Rightarrow> state \<Rightarrow> outcome" where
  "SetTimezone w name s =
     (if name = [] then Return s
      else if started s then Return s
      else if started s then Return s
      else if setTimezoneOnce s then Return s
      else if name = ''Asia/Shanghai'' then
        (let s1 = s\<lparr>locationValue := FixedZone ''Asia/Shanghai'' (8 * 3600)\<rparr>;
             s2 = rotate' (dayKey (nowInLocation w s1)) s1
         in Return (s2\<lparr>setTimezoneOnce := True\<rparr>))
      else
        (case LoadLocation w name of
           None \<Rightarrow> Exit 1 (s\<lparr>stderr := LoadTimezoneFailed name # stderr s\<rparr>)
         | Some loaded \<Rightarrow>
             (let s1 = s\<lparr>locationValue := loaded\<rparr>;
                  s2 = rotate' (dayKey (nowInLocation w s1)) s1
              in Return (s2\<lparr>setTimezoneOnce := True\<rparr>))))"

definition AppendWriter :: "nat list \<Rightarrow> state \<Rightarrow> state" where
  "AppendWriter writer s =
     (if length writer = 0 then s
      else if started s then s
      else if started s then s
      else if appendWriterOnce s then s
      else s\<lparr>writersValue := writer, appendWriterOnce := True\<rparr>)"

definition SetDir :: "world \<Rightarrow> string \<Rightarrow> state \<Rightarrow> state" where
  "SetDir w path s =
     (if path = [] then s
      else if started s then s
      else if started s then s
      else if setDirOnce s then s
      else
        (let cleaned = filepath_Clean path
         in if \<not> MkdirAll w cleaned then
              s\<lparr>stderr := MkdirFailed cleaned # stderr s, setDirOnce := True\<rparr>
            else
              (let s1 = s\<lparr>dirPathValue := cleaned\<rparr>;
                   s2 = createLogger w s1
               in s2\<lparr>setDirOnce := True\<rparr>)))"

subsection \<open>Writing\<close>

text \<open>\<^verbatim>\<open>withFileWriter\<close>: the extra writers first, then the file.\<close>

definition withFileWriter :: "string \<Rightarrow> state \<Rightarrow> writer list" where
  "withFileWriter h s = map ExtraWriter (writersValue s) @ [FileWriter h]"

text \<open>\<^verbatim>\<open>ensureLoggerLocked\<close>. Opening with \<^verbatim>\<open>O_CREATE\<close> creates the file when it is
  absent.\<close>

definition ensureLoggerLocked :: "world \<Rightarrow> loggerVar \<Rightarrow> state \<Rightarrow> outcome" where
  "ensureLoggerLocked w v s =
     (case loggers s v of
        None \<Rightarrow> Panic
      | Some l \<Rightarrow>
          if logger l \<noteq> None then Return s
          else if \<not> OpenFile w (fileName l) then
            Exit 1 (s\<lparr>stderr := OpenFileFailed (fileName l) # stderr s\<rparr>)
          else
            (let h = fileName l;
                 s1 = s\<lparr>files := (files s)(h \<mapsto> (case files s h of None \<Rightarrow> [] | Some c \<Rightarrow> c))\<rparr>
             in Return (s1\<lparr>loggers := (loggers s1)(v \<mapsto>
                   l\<lparr>fileH := Some h, logger := Some (withFileWriter h s1)\<rparr>)\<rparr>)))"

text \<open>One \<^verbatim>\<open>Write\<close> of the \<^verbatim>\<open>io.MultiWriter\<close>: each writer receives the bytes, in
  order.\<close>

fun writeTo :: "string \<Rightarrow> writer \<Rightarrow> state \<Rightarrow> state" where
  "writeTo bytes (ExtraWriter i) s = s\<lparr>buffers := (buffers s)(i := buffers s i @ bytes)\<rparr>"
| "writeTo bytes (FileWriter p) s =
     s\<lparr>files := (files s)(p \<mapsto> (case files s p of None \<Rightarrow> bytes | Some c \<Rightarrow> c @ bytes))\<rparr>"

definition multiWrite :: "writer list \<Rightarrow> string \<Rightarrow> state \<Rightarrow> state" where
  "multiWrite ws bytes s = fold (writeTo bytes) ws s"

text \<open>The bytes one \<^verbatim>\<open>Println\<close> and one \<^verbatim>\<open>Printf\<close> hand to the \<^verbatim>\<open>io.MultiWriter\<close>.\<close>

definition printlnBytes :: "gotime \<Rightarrow> logLevel \<Rightarrow> string list \<Rightarrow> string" where
  "printlnBytes now lvl v = log_Output (Sprintln ([timePrefix now, levelString lvl] @ v))"

definition printfBytes :: "world \<Rightarrow> gotime \<Rightarrow> logLevel \<Rightarrow> string \<Rightarrow> string list \<Rightarrow> string" where
  "printfBytes w now lvl format v =
     log_Output (Sprintf w (timePrefix now @ '' '' @ levelString lvl @ '' '' @ format) v)"

text \<open>The shared body of \<^verbatim>\<open>Println\<close> and \<^verbatim>\<open>Printf\<close>: freeze, read the clock, rotate,
  make sure the logger is open, write. \<open>bytes\<close> computes the line from the time and
  the level of the logger. The receiver is the pointer read from the variable \<open>v\<close> when
  the call starts; a nil receiver panics at \<^verbatim>\<open>l.level\<close>.\<close>

definition writeLine :: "world \<Rightarrow> loggerVar \<Rightarrow> (gotime \<Rightarrow> logLevel \<Rightarrow> string) \<Rightarrow> state \<Rightarrow> outcome" where
  "writeLine w v bytes s0 =
     (let s1 = freezeConfig s0;
          now = nowInLocation w s1;
          s2 = rotateIfNeeded now s1
      in case (if loggers s0 v = None then None else loggers s2 v) of
           None \<Rightarrow> Panic
         | Some l \<Rightarrow>
             (case ensureLoggerLocked w v s2 of
                Panic \<Rightarrow> Panic
              | Exit c s3 \<Rightarrow> Exit c s3
              | Return s3 \<Rightarrow>
                  (case loggers s3 v of
                     None \<Rightarrow> Panic
                   | Some l3 \<Rightarrow>
                       (case logger l3 of
                          None \<Rightarrow> Panic
                        | Some ws \<Rightarrow> Return (multiWrite ws (bytes now (level l)) s3)))))"

definition Println :: "world \<Rightarrow> loggerVar \<Rightarrow> string list \<Rightarrow> state \<Rightarrow> outcome" where
  "Println w v args s = writeLine w v (\<lambda>now lvl. printlnBytes now lvl args) s"

definition Printf :: "world \<Rightarrow> loggerVar \<Rightarrow> string \<Rightarrow> string list \<Rightarrow> state \<Rightarrow> outcome" where
  "Printf w v format args s = writeLine w v (\<lambda>now lvl. printfBytes w now lvl format args) s"

text \<open>\<^verbatim>\<open>(*logger).Close\<close>; the error that closing may return is not modelled.\<close>

definition Close :: "loggerVar \<Rightarrow> state \<Rightarrow> outcome" where
  "Close v s =
     (case loggers s v of
        None \<Rightarrow> Panic
      | Some l \<Rightarrow>
          (case fileH l of
             None \<Rightarrow> Return s
           | Some h \<Rightarrow>
               Return (s\<lparr>loggers := (loggers s)(v \<mapsto> l\<lparr>fileH := None, logger := None\<rparr>),
                         closedFiles := h # closedFiles s\<rparr>)))"

text \<open>\<^verbatim>\<open>Fatalln\<close> and \<^verbatim>\<open>Fatalf\<close> of the error logger: the write, then \<^verbatim>\<open>os.Exit(1)\<close>.\<close>

definition Fatalln :: "world \<Rightarrow> string list \<Rightarrow> state \<Rightarrow> outcome" where
  "Fatalln w args s =
     (case Println w Error args s of Return s' \<Rightarrow> Exit 1 s' | other \<Rightarrow> other)"

definition Fatalf :: "world \<Rightarrow> string \<Rightarrow> string list \<Rightarrow> state \<Rightarrow> outcome" where
  "Fatalf w format args s =
     (case Printf w Error format args s of Return s' \<Rightarrow> Exit 1 s' | other \<Rightarrow> other)"

subsection \<open>Runs of the package\<close>

text \<open>A call of the public interface, and a run: a list of calls, each with the world it
  meets. A run stops at the first call that ends the process.\<close>

datatype op =
    OpSetDir string
  | OpSetTimezone string
  | OpAppendWriter "nat list"
  | OpPrintln loggerVar "string list"
  | OpPrintf loggerVar string "string list"
  | OpClose loggerVar

fun step :: "world \<Rightarrow> op \<Rightarrow> state \<Rightarrow> outcome" where
  "step w (OpSetDir path) s = Return (SetDir w path s)"
| "step w (OpSetTimezone name) s = SetTimezone w name s"
| "step w (OpAppendWriter writer) s = Return (AppendWriter writer s)"
| "step w (OpPrintln v args) s = Println w v args s"
| "step w (OpPrintf v format args) s = Printf w v format args s"
| "step w (OpClose v) s = Close v s"

fun run :: "(world \<times> op) list \<Rightarrow> state \<Rightarrow> outcome" where
  "run [] s = Return s"
| "run ((w, x) # rest) s =
     (case step w x s of Return s' \<Rightarrow> run rest s' | Exit c s' \<Rightarrow> Exit c s' | Panic \<Rightarrow> Panic)"

fun finalState :: "outcome \<Rightarrow> state option" where
  "finalState (Return s) = Some s"
| "finalState (Exit c s) = Some s"
| "finalState Panic = None"

definition stateOf :: "outcome \<Rightarrow> state" where
  "stateOf r = (case r of Return s \<Rightarrow> s | Exit c s \<Rightarrow> s | Panic \<Rightarrow> zeroState)"

text \<open>The three configured values, and the four flags that guard them.\<close>

definition config :: "state \<Rightarrow> string \<times> location \<times> nat list" where
  "config s = (dirPathValue s, locationValue s, writersValue s)"

definition latches :: "state \<Rightarrow> bool \<times> bool \<times> bool \<times> bool" where
  "latches s = (started s, setDirOnce s, setTimezoneOnce s, appendWriterOnce s)"

text \<open>The level and the file-name suffix that \<^verbatim>\<open>rotateLocked\<close> gives to each variable,
  and the path it computes for it.\<close>

fun levelOf :: "loggerVar \<Rightarrow> logLevel" where
  "levelOf Debug = levelDebug"
| "levelOf Info = levelInfo"
| "levelOf Warning = levelWarning"
| "levelOf Error = levelError"

fun suffixOf :: "loggerVar \<Rightarrow> string" where
  "suffixOf Debug = ''.debug.log''"
| "suffixOf Info = ''.info.log''"
| "suffixOf Warning = ''.warning.log''"
| "suffixOf Error = ''.error.log''"

definition logPath :: "string \<Rightarrow> string \<Rightarrow> loggerVar \<Rightarrow> string" where
  "logPath dir date v = filepath_Join dir (date @ suffixOf v)"

text \<open>What one block of \<^verbatim>\<open>rotateLocked\<close> leaves in a variable: a new logger when it was
  nil; otherwise the same logger, renamed when the name differs, with handle and
  \<^verbatim>\<open>*log.Logger\<close> dropped when a handle was open.\<close>

definition relocate :: "logLevel \<Rightarrow> string \<Rightarrow> logger option \<Rightarrow> logger" where
  "relocate lvl name old =
     (case old of
        None \<Rightarrow> newLogger lvl name
      | Some l \<Rightarrow>
          if fileName l = name then l
          else if fileH l = None then l\<lparr>fileName := name\<rparr>
          else l\<lparr>logger := None, fileH := None, fileName := name\<rparr>)"

subsection \<open>Line patterns of the test suite\<close>

text \<open>The regular expression of \<^verbatim>\<open>TestLoggerBasicBehavior\<close>,
  \<^verbatim>\<open>^\d{4}-\d{2}-\d{2} \d{2}:\d{2}:\d{2}\.\d{6} INFO hello\n$\<close>, as a list of
  positions: a decimal digit, or one given byte.\<close>

datatype pat = Digit | Lit char

fun matches :: "pat list \<Rightarrow> string \<Rightarrow> bool" where
  "matches [] [] = True"
| "matches (Digit # ps) (c # cs) = (c \<in> set ''0123456789'' \<and> matches ps cs)"
| "matches (Lit x # ps) (c # cs) = (c = x \<and> matches ps cs)"
| "matches ps cs = False"

definition timestampPattern :: "pat list" where
  "timestampPattern =
     [Digit, Digit, Digit, Digit, Lit (CHR ''-''), Digit, Digit, Lit (CHR ''-''), Digit, Digit,
      Lit (CHR '' ''), Digit, Digit, Lit (CHR '':''), Digit, Digit, Lit (CHR '':''), Digit, Digit,
      Lit (CHR ''.''), Digit, Digit, Digit, Digit, Digit, Digit]"

definition infoHelloPattern :: "pat list" where
  "infoHelloPattern = timestampPattern @ map Lit '' INFO hello'' @ [Lit newline]"

subsection \<open>Example inputs\<close>

definition exampleTime :: gotime where
  "exampleTime = \<lparr>year = 2024, month = 3, day = 5, hour = 14, minute = 7, second = 9,
     nanosecond = 123456\<rparr>"

definition exampleLater :: gotime where
  "exampleLater = \<lparr>year = 2024, month = 3, day = 5, hour = 23, minute = 59, second = 59,
     nanosecond = 999999999\<rparr>"

text \<open>A formatter for the examples: \<^verbatim>\<open>%%\<close> is a percent sign, any other verb takes the
  next operand as it is rendered. It agrees with \<^verbatim>\<open>fmt.Sprintf\<close> on formats whose verbs
  have no flags and find one operand each.\<close>

fun simpleSprintf :: "string \<Rightarrow> string list \<Rightarrow> string" where
  "simpleSprintf [] ops = []"
| "simpleSprintf [c] ops = [c]"
| "simpleSprintf (c # d # r) ops =
     (if c = CHR ''%'' then
        (if d = CHR ''%'' then CHR ''%'' # simpleSprintf r ops
         else (case ops of
                 [] \<Rightarrow> ''%!'' @ [d] @ ''(MISSING)'' @ simpleSprintf r []
               | x # xs \<Rightarrow> x @ simpleSprintf r xs))
      else c # simpleSprintf (d # r) ops)"

text \<open>A world where the clock shows \<open>exampleTime\<close>, every directory can be created but
  \<^verbatim>\<open>block/subdir\<close> (the case of \<^verbatim>\<open>TestSetDirFailureFallsBack\<close>), the timezone
  database knows \<^verbatim>\<open>UTC\<close> only, and every file can be opened.\<close>

definition exampleWorld :: world where
  "exampleWorld =
     \<lparr>Now = (\<lambda>loc. exampleTime),
      MkdirAll = (\<lambda>p. p \<noteq> ''block/subdir''),
      LoadLocation = (\<lambda>n. if n = ''UTC'' then Some (LoadedZone ''UTC'') else None),
      OpenFile = (\<lambda>p. True),
      Sprintf = simpleSprintf\<rparr>"

text \<open>The state after \<^verbatim>\<open>init\<close> and one \<^verbatim>\<open>Info.Println("hello")\<close>.\<close>

definition exampleStarted :: state where
  "exampleStarted = stateOf (Println exampleWorld Info [''hello''] (init exampleWorld))"

definition exampleLateCalls :: "(world \<times> op) list" where
  "exampleLateCalls =
     [(exampleWorld, OpSetDir ''late''), (exampleWorld, OpSetTimezone ''UTC''),
      (exampleWorld, OpAppendWriter [7]), (exampleWorld, OpPrintf Warning ''x=%d'' [''1''])]"

text \<open>States and runs for the configuration calls: two settings made after \<^verbatim>\<open>init\<close>,
  calls that come too late, and a directory that cannot be created.\<close>

definition exampleConfigured :: state where
  "exampleConfigured = AppendWriter [1] (SetDir exampleWorld ''d1/'' (init exampleWorld))"

definition exampleMixedCalls :: "(world \<times> op) list" where
  "exampleMixedCalls =
     [(exampleWorld, OpSetDir ''d2''), (exampleWorld, OpAppendWriter [2]),
      (exampleWorld, OpPrintln Info [''hello'']), (exampleWorld, OpSetDir ''d3'')]"

definition exampleFailedDir :: state where
  "exampleFailedDir = SetDir exampleWorld ''block/subdir'' (init exampleWorld)"

definition exampleRetryCalls :: "(world \<times> op) list" where
  "exampleRetryCalls =
     [(exampleWorld, OpSetDir ''logs''), (exampleWorld, OpPrintln Info [''dir-fallback'']),
      (exampleWorld, OpSetDir ''d3'')]"

section \<open>Properties\<close>

subsection \<open>What each function leaves unchanged\<close>

lemma setFileName_frame [simp]:
  "config (setFileName v n s) = config s" "latches (setFileName v n s) = latches s"
  "dateStr (setFileName v n s) = dateStr s" "dateFast (setFileName v n s) = dateFast s"
  "stderr (setFileName v n s) = stderr s" "files (setFileName v n s) = files s"
  "buffers (setFileName v n s) = buffers s"
  by (simp_all add: setFileName_def config_def latches_def split: option.splits)

lemma assignLogger_frame [simp]:
  "config (assignLogger v l s) = config s" "latches (assignLogger v l s) = latches s"
  "dateStr (assignLogger v l s) = dateStr s" "dateFast (assignLogger v l s) = dateFast s"
  "stderr (assignLogger v l s) = stderr s" "files (assignLogger v l s) = files s"
  "buffers (assignLogger v l s) = buffers s"
  by (simp_all add: assignLogger_def split: option.splits) (simp_all add: config_def latches_def)

lemma rotateLocked_frame [simp]:
  "config (rotateLocked d s) = config s" "latches (rotateLocked d s) = latches s"
  "dateStr (rotateLocked d s) = d" "dateFast (rotateLocked d s) = d"
  "stderr (rotateLocked d s) = stderr s" "files (rotateLocked d s) = files s"
  "buffers (rotateLocked d s) = buffers s"
  by (simp_all add: rotateLocked_def Let_def) (simp_all add: config_def latches_def)

lemma rotateIfNeeded_frame [simp]:
  "config (rotateIfNeeded now s) = config s" "latches (rotateIfNeeded now s) = latches s"
  "stderr (rotateIfNeeded now s) = stderr s" "files (rotateIfNeeded now s) = files s"
  "buffers (rotateIfNeeded now s) = buffers s"
  by (simp_all add: rotateIfNeeded_def rotateIfDateChanged_def Let_def)

lemma writeTo_frame [simp]:
  "config (writeTo b x s) = config s" "latches (writeTo b x s) = latches s"
  "loggers (writeTo b x s) = loggers s" "dateStr (writeTo b x s) = dateStr s"
  "dateFast (writeTo b x s) = dateFast s" "stderr (writeTo b x s) = stderr s"
  "closedFiles (writeTo b x s) = closedFiles s"
  by (cases x; simp add: config_def latches_def)+

lemma multiWrite_frame [simp]:
  "config (multiWrite ws b s) = config s" "latches (multiWrite ws b s) = latches s"
  "loggers (multiWrite ws b s) = loggers s" "dateStr (multiWrite ws b s) = dateStr s"
  "dateFast (multiWrite ws b s) = dateFast s" "stderr (multiWrite ws b s) = stderr s"
  "closedFiles (multiWrite ws b s) = closedFiles s"
  unfolding multiWrite_def by (induction ws arbitrary: s; simp)+

lemma ensureLoggerLocked_frame:
  assumes "finalState (ensureLoggerLocked w v s) = Some s'"
  shows "config s' = config s" "latches s' = latches s"
    "dateStr s' = dateStr s" "dateFast s' = dateFast s"
  using assms
  by (auto simp: ensureLoggerLocked_def Let_def config_def latches_def
      split: option.splits if_splits)

lemma freezeConfig_frame [simp]:
  "config (freezeConfig s) = config s" "started (freezeConfig s)"
  "setDirOnce (freezeConfig s) = setDirOnce s"
  "setTimezoneOnce (freezeConfig s) = setTimezoneOnce s"
  "appendWriterOnce (freezeConfig s) = appendWriterOnce s"
  by (simp_all add: freezeConfig_def config_def)

lemma writeLine_frame:
  assumes "finalState (writeLine w v bytes s) = Some s'"
  shows "config s' = config s" "started s'" "setDirOnce s' = setDirOnce s"
    "setTimezoneOnce s' = setTimezoneOnce s" "appendWriterOnce s' = appendWriterOnce s"
proof -
  let ?s2 = "rotateIfNeeded (nowInLocation w (freezeConfig s)) (freezeConfig s)"
  have l2: "latches ?s2 = latches (freezeConfig s)" and c2: "config ?s2 = config s"
    by simp_all
  from assms obtain s3 where e: "finalState (ensureLoggerLocked w v ?s2) = Some s3"
    and s': "s' = s3 \<or> (\<exists>ws b. s' = multiWrite ws b s3)"
    by (auto simp: writeLine_def Let_def split: option.splits outcome.splits if_splits)
  from ensureLoggerLocked_frame[OF e] have c3: "config s3 = config ?s2" "latches s3 = latches ?s2"
    by simp_all
  from s' have "config s' = config s3" "latches s' = latches s3" by auto
  with c3 c2 l2 have a: "config s' = config s" and b: "latches s' = latches (freezeConfig s)" by simp_all
  show "config s' = config s" by (rule a)
  from b show "started s'" "setDirOnce s' = setDirOnce s"
    "setTimezoneOnce s' = setTimezoneOnce s" "appendWriterOnce s' = appendWriterOnce s"
    by (simp_all add: latches_def)
qed

lemma config_calls_started:
  "started s \<Longrightarrow> SetDir w path s = s"
  "started s \<Longrightarrow> SetTimezone w name s = Return s"
  "started s \<Longrightarrow> AppendWriter writer s = s"
  by (simp_all add: SetDir_def SetTimezone_def AppendWriter_def)

lemma Close_frame:
  "finalState (Close v s) = Some s' \<Longrightarrow> config s' = config s \<and> latches s' = latches s"
  unfolding Close_def
  by (cases "loggers s v"; cases "fileH (the (loggers s v))") (auto simp: config_def latches_def)

lemma step_frozen:
  assumes "started s" "finalState (step w x s) = Some s'"
  shows "started s' \<and> config s' = config s"
proof (cases x)
  case (OpPrintln v args)
  with assms writeLine_frame[of w v _ s s'] show ?thesis by (simp add: Println_def)
next
  case (OpPrintf v f args)
  with assms writeLine_frame[of w v _ s s'] show ?thesis by (simp add: Printf_def)
next
  case (OpClose v)
  with assms Close_frame[of v s s'] show ?thesis by (simp add: latches_def)
qed (use assms in \<open>simp_all add: config_calls_started\<close>)

lemma run_frozen:
  "started s \<Longrightarrow> finalState (run ops s) = Some s' \<Longrightarrow> started s' \<and> config s' = config s"
proof (induction ops arbitrary: s)
  case Nil
  then show ?case by simp
next
  case (Cons a ops)
  obtain w x where a: "a = (w, x)" by (cases a)
  show ?case
  proof (cases "step w x s")
    case (Return s1)
    with Cons.prems a have "finalState (run ops s1) = Some s'" by simp
    moreover from Return Cons.prems(1) step_frozen[of s w x s1]
    have "started s1 \<and> config s1 = config s" by simp
    ultimately show ?thesis using Cons.IH[of s1] by simp
  next
    case (Exit c s1)
    with Cons.prems a have "s' = s1" by simp
    with Exit Cons.prems(1) step_frozen[of s w x s1] show ?thesis by simp
  next
    case Panic
    with Cons.prems a show ?thesis by simp
  qed
qed

subsection \<open>Rotation\<close>

lemma assignLogger_loggers:
  "loggers (assignLogger v fresh s) =
     (loggers s)(v \<mapsto> relocate (level fresh) (fileName fresh) (loggers s v))"
  if "logger fresh = None" "fileH fresh = None" 
proof (cases "loggers s v")
  case None
  have "fresh = newLogger (level fresh) (fileName fresh)"
    using that by (simp add: newLogger_def)
  with None show ?thesis by (simp add: assignLogger_def relocate_def)
next
  case (Some l)
  then show ?thesis
    by (cases "fileH l") (auto simp: assignLogger_def setFileName_def relocate_def fun_upd_idem)
qed

lemma assignLogger_dir [simp]: "dirPathValue (assignLogger v fresh s) = dirPathValue s"
  using assignLogger_frame(1)[of v fresh s] by (simp add: config_def)

lemma rotateLocked_loggers:
  "loggers (rotateLocked d s) v = Some (relocate (levelOf v) (logPath (dirPathValue s) d v) (loggers s v))"
  by (cases v)
    (simp_all add: rotateLocked_def Let_def assignLogger_loggers newLogger_def newErrorLogger_def
      logPath_def)

lemma relocate_level:
  "(case old of None \<Rightarrow> True | Some l \<Rightarrow> level l = lvl) \<Longrightarrow> level (relocate lvl name old) = lvl"
  by (cases old) (simp_all add: relocate_def newLogger_def)

lemma relocate_fileName [simp]: "fileName (relocate lvl name old) = name"
  by (simp add: relocate_def newLogger_def split: option.splits)

lemma rotateIfNeeded_loggers_Some:
  "loggers s v \<noteq> None \<Longrightarrow> loggers (rotateIfNeeded now s) v \<noteq> None"
  by (simp add: rotateIfNeeded_def rotateIfDateChanged_def Let_def rotateLocked_loggers)

lemma freezeConfig_loggers [simp]: "loggers (freezeConfig s) = loggers s"
  by (simp add: freezeConfig_def)

lemma freezeConfig_dates [simp]:
  "dateStr (freezeConfig s) = dateStr s" "dateFast (freezeConfig s) = dateFast s"
  "locationValue (freezeConfig s) = locationValue s"
  by (simp_all add: freezeConfig_def)

lemma ensureLoggerLocked_returns:
  assumes "loggers s v = Some l" "OpenFile w (fileName l)"
  shows "\<exists>s' l' ws. ensureLoggerLocked w v s = Return s' \<and> loggers s' v = Some l' \<and>
           logger l' = Some ws \<and> (\<forall>u. loggers s u \<noteq> None \<longrightarrow> loggers s' u \<noteq> None)"
  using assms by (cases "logger l") (auto simp: ensureLoggerLocked_def Let_def)

lemma writeLine_returns:
  assumes "\<forall>u. loggers s u \<noteq> None" "\<forall>p. OpenFile w p"
  shows "\<exists>s'. writeLine w v bytes s = Return s' \<and> (\<forall>u. loggers s' u \<noteq> None)"
proof -
  let ?s2 = "rotateIfNeeded (nowInLocation w (freezeConfig s)) (freezeConfig s)"
  from assms(1) have all2: "\<forall>u. loggers ?s2 u \<noteq> None"
    using rotateIfNeeded_loggers_Some[of "freezeConfig s"] by simp
  then have "loggers ?s2 v \<noteq> None" by blast
  then obtain l where l: "loggers ?s2 v = Some l" by blast
  from ensureLoggerLocked_returns[OF l] assms(2) obtain s3 l3 ws where
    e: "ensureLoggerLocked w v ?s2 = Return s3" "loggers s3 v = Some l3" "logger l3 = Some ws"
    "\<forall>u. loggers ?s2 u \<noteq> None \<longrightarrow> loggers s3 u \<noteq> None"
    by blast
  from assms(1) have nz: "loggers s v \<noteq> None" by simp
  have "writeLine w v bytes s = Return (multiWrite ws (bytes (nowInLocation w (freezeConfig s)) (level l)) s3)"
    using l e nz by (simp add: writeLine_def Let_def)
  moreover have "\<forall>u. loggers (multiWrite ws (bytes (nowInLocation w (freezeConfig s)) (level l)) s3) u \<noteq> None"
    using e(4) all2 by simp
  ultimately show ?thesis by blast
qed

lemma init_loggers:
  "loggers (init w) v =
     Some (newLogger (levelOf v) (logPath [] (dayKey (Now w (FixedZone ''Asia/Shanghai'' (8 * 3600)))) v))"
  by (simp add: init_def rotate'_def Let_def rotateLocked_loggers zeroState_def relocate_def
      nowInLocation_def)

lemma init_fields:
  "started (init w) = False" "setDirOnce (init w) = False" "setTimezoneOnce (init w) = False"
  "appendWriterOnce (init w) = False" "dirPathValue (init w) = []" "writersValue (init w) = []"
  "locationValue (init w) = FixedZone ''Asia/Shanghai'' (8 * 3600)"
  "dateStr (init w) = dayKey (Now w (FixedZone ''Asia/Shanghai'' (8 * 3600)))"
  "dateFast (init w) = dateStr (init w)" "stderr (init w) = []"
proof -
  let ?s = "zeroState\<lparr>dirPathValue := [], locationValue := FixedZone ''Asia/Shanghai'' (8 * 3600),
     writersValue := [], dateFast := []\<rparr>"
  have i: "init w = rotateLocked (dayKey (nowInLocation w ?s)) ?s"
    by (simp add: init_def rotate'_def Let_def)
  have l: "latches (init w) = latches ?s" and c: "config (init w) = config ?s"
    unfolding i by simp_all
  from l show "started (init w) = False" "setDirOnce (init w) = False"
    "setTimezoneOnce (init w) = False" "appendWriterOnce (init w) = False"
    by (simp_all add: latches_def zeroState_def)
  from c show "dirPathValue (init w) = []" "writersValue (init w) = []"
    "locationValue (init w) = FixedZone ''Asia/Shanghai'' (8 * 3600)"
    by (simp_all add: config_def)
  show "dateStr (init w) = dayKey (Now w (FixedZone ''Asia/Shanghai'' (8 * 3600)))"
    unfolding i by (simp add: nowInLocation_def)
  show "dateFast (init w) = dateStr (init w)" unfolding i by simp
  show "stderr (init w) = []" unfolding i by (simp add: zeroState_def)
qed

lemma exampleWorld_fields [simp]:
  "OpenFile exampleWorld p" "Now exampleWorld loc = exampleTime"
  "MkdirAll exampleWorld p = (p \<noteq> ''block/subdir'')"
  "LoadLocation exampleWorld n = (if n = ''UTC'' then Some (LoadedZone ''UTC'') else None)"
  "Sprintf exampleWorld = simpleSprintf"
  by (simp_all add: exampleWorld_def)

lemma exampleStarted_facts:
  "started exampleStarted" "\<forall>u. loggers exampleStarted u \<noteq> None"
  "dirPathValue exampleStarted = []"
proof -
  have a: "\<forall>u. loggers (init exampleWorld) u \<noteq> None" by (simp add: init_loggers)
  have b: "\<forall>p. OpenFile exampleWorld p" by simp
  from writeLine_returns[OF a b] obtain s' where
    s': "Println exampleWorld Info [''hello''] (init exampleWorld) = Return s'"
      "\<forall>u. loggers s' u \<noteq> None"
    unfolding Println_def by blast
  then have e: "exampleStarted = s'" by (simp add: exampleStarted_def stateOf_def)
  from s'(1) have f: "finalState (writeLine exampleWorld Info (\<lambda>now lvl. printlnBytes now lvl [''hello'']) (init exampleWorld)) = Some s'"
    by (simp add: Println_def)
  from writeLine_frame(2)[OF f] e show "started exampleStarted" by simp
  from s'(2) e show "\<forall>u. loggers exampleStarted u \<noteq> None" by simp
  from writeLine_frame(1)[OF f] e show "dirPathValue exampleStarted = []"
    by (simp add: config_def init_fields)
qed

lemma rotateIfNeeded_dates:
  "dateFast s = dateStr s \<Longrightarrow>
     dateFast (rotateIfNeeded now s) = dayKey now \<and> dateStr (rotateIfNeeded now s) = dayKey now"
  by (simp add: rotateIfNeeded_def rotateIfDateChanged_def Let_def)

lemma rotateIfNeeded_current: "dateFast s = dayKey now \<Longrightarrow> rotateIfNeeded now s = s"
  by (simp add: rotateIfNeeded_def)

lemma rotateIfNeeded_twice:
  assumes "dayKey now2 = dayKey now1"
  shows "rotateIfNeeded now2 (rotateIfNeeded now1 s) = rotateIfNeeded now1 s"
proof (cases "dateFast s = dayKey now1")
  case True
  then show ?thesis using assms by (simp add: rotateIfNeeded_def)
next
  case False
  show ?thesis
  proof (cases "dateStr s = dayKey now1")
    case True
    with False have "rotateIfNeeded now1 s = s"
      by (simp add: rotateIfNeeded_def rotateIfDateChanged_def)
    moreover from True False assms have "rotateIfNeeded now2 s = s"
      by (simp add: rotateIfNeeded_def rotateIfDateChanged_def)
    ultimately show ?thesis by simp
  next
    case notStr: False
    with False have r: "rotateIfNeeded now1 s = rotateLocked (dayKey now1) s"
      by (simp add: rotateIfNeeded_def rotateIfDateChanged_def)
    have "dateFast (rotateLocked (dayKey now1) s) = dayKey now2" using assms by simp
    then show ?thesis unfolding r by (rule rotateIfNeeded_current)
  qed
qed

lemma writeLine_dates:
  assumes "finalState (writeLine w v bytes s) = Some s'" "dateFast s = dateStr s"
  shows "dateFast s' = dayKey (Now w (locationValue s))" "dateStr s' = dateFast s'"
proof -
  let ?now = "nowInLocation w (freezeConfig s)"
  let ?s2 = "rotateIfNeeded ?now (freezeConfig s)"
  from assms(1) obtain s3 where e: "finalState (ensureLoggerLocked w v ?s2) = Some s3"
    and s': "s' = s3 \<or> (\<exists>ws b. s' = multiWrite ws b s3)"
    by (auto simp: writeLine_def Let_def split: option.splits outcome.splits if_splits)
  from s' have a: "dateFast s' = dateFast s3" "dateStr s' = dateStr s3" by auto
  from ensureLoggerLocked_frame[OF e] have b: "dateFast s3 = dateFast ?s2" "dateStr s3 = dateStr ?s2"
    by simp_all
  from assms(2) have "dateFast (freezeConfig s) = dateStr (freezeConfig s)" by simp
  from rotateIfNeeded_dates[OF this, of ?now]
  have c: "dateFast ?s2 = dayKey ?now" "dateStr ?s2 = dayKey ?now" by simp_all
  from a b c show "dateFast s' = dayKey (Now w (locationValue s))" "dateStr s' = dateFast s'"
    by (simp_all add: nowInLocation_def)
qed

subsection \<open>Evaluating the formatters\<close>

lemma replicate_numeral: "replicate (numeral k) x = x # replicate (pred_numeral k) x"
  by (simp add: numeral_eq_Suc)


lemma timePrefix_unfold:
  "timePrefix t =
     appendInt (year t) 4 @ ''/'' @ appendInt (int (month t)) 2 @ ''/'' @
     appendInt (int (day t)) 2 @ '' '' @ appendInt (int (hour t)) 2 @ '':'' @
     appendInt (int (minute t)) 2 @ '':'' @ appendInt (int (second t)) 2 @
     appendNano (nanosecond t) 6"
  by (simp add: timePrefix_def time_Format.simps)

lemma dayKey_unfold:
  "dayKey t =
     appendInt (year t) 4 @ ''-'' @ appendInt (int (month t)) 2 @ ''-'' @
     appendInt (int (day t)) 2"
  by (simp add: dayKey_def time_Format.simps)

lemma dayKey_example: "dayKey exampleTime = ''2024-03-05''"
  by (simp add: dayKey_unfold exampleTime_def appendInt_def digitChar_def replicate_numeral)

lemma timePrefix_example: "timePrefix exampleTime = ''2024/03/05 14:07:09.000123''"
  by (simp add: timePrefix_unfold exampleTime_def appendInt_def appendNano_def digitChar_def
      replicate_numeral)

lemma println_example:
  "printlnBytes exampleTime levelInfo [''hello''] = ''2024/03/05 14:07:09.000123 INFO hello'' @ [newline]"
  by (simp add: printlnBytes_def Sprintln_def log_Output_def timePrefix_example)

subsection \<open>The example run\<close>

lemma exampleLateCalls_run:
  "\<exists>s'. run exampleLateCalls exampleStarted = Return s'"
proof -
  have b: "\<forall>p. OpenFile exampleWorld p" by simp
  from writeLine_returns[OF exampleStarted_facts(2) b] obtain s' where
    "Printf exampleWorld Warning ''x=%d'' [''1''] exampleStarted = Return s'"
    unfolding Printf_def by blast
  then show ?thesis
    by (simp add: exampleLateCalls_def config_calls_started exampleStarted_facts(1))
qed

lemma init_writes_return:
  "\<exists>s1. Println exampleWorld Info [''hello''] (init exampleWorld) = Return s1"
  "\<exists>s2. Printf exampleWorld Warning ''x=%d'' [''1''] (init exampleWorld) = Return s2"
proof -
  have a: "\<forall>u. loggers (init exampleWorld) u \<noteq> None" by (simp add: init_loggers)
  have b: "\<forall>p. OpenFile exampleWorld p" by simp
  from writeLine_returns[OF a b]
  show "\<exists>s1. Println exampleWorld Info [''hello''] (init exampleWorld) = Return s1"
    unfolding Println_def by blast
  from writeLine_returns[OF a b]
  show "\<exists>s2. Printf exampleWorld Warning ''x=%d'' [''1''] (init exampleWorld) = Return s2"
    unfolding Printf_def by blast
qed

lemma dayKey_exampleLater: "dayKey exampleLater = ''2024-03-05''"
  by (simp add: dayKey_unfold exampleLater_def appendInt_def digitChar_def replicate_numeral)

lemma exampleStarted_dates:
  "dateFast exampleStarted = dayKey exampleTime" "dateStr exampleStarted = dayKey exampleTime"
proof -
  from init_writes_return(1) obtain s1 where
    r: "Println exampleWorld Info [''hello''] (init exampleWorld) = Return s1" by blast
  then have e: "exampleStarted = s1" by (simp add: exampleStarted_def stateOf_def)
  from r have f: "finalState (writeLine exampleWorld Info (\<lambda>now lvl. printlnBytes now lvl [''hello''])
      (init exampleWorld)) = Some s1"
    by (simp add: Println_def)
  from writeLine_dates[OF f init_fields(9)] e
  show "dateFast exampleStarted = dayKey exampleTime" "dateStr exampleStarted = dayKey exampleTime"
    by simp_all
qed

section \<open>The claims\<close>

subsection \<open>C4: the configuration is frozen by the first write\<close>

text \<open>
  C4. Once any write (\<^verbatim>\<open>Println\<close> or \<^verbatim>\<open>Printf\<close> on any logger) has occurred, the
  flag \<open>started\<close> is set and stays set, and from then on every call of \<^verbatim>\<open>SetDir\<close>,
  \<^verbatim>\<open>SetTimezone\<close> and \<^verbatim>\<open>AppendWriter\<close> is a no-op: the directory, the timezone and
  the extra writers never change again. The theorem states: a write that returns or ends
  the process leaves \<open>started\<close> set; with \<open>started\<close> set, each configuration call
  returns the state it was given; and over any run of calls from a started state, the
  flag stays set and the three configured values are those of the start.
\<close>

theorem frozen_after_first_write:
  "(finalState (Println w v args s) = Some s1 \<longrightarrow> started s1) \<and>
   (finalState (Printf w v format args s) = Some s2 \<longrightarrow> started s2) \<and>
   (started s \<longrightarrow>
      SetDir w path s = s \<and> SetTimezone w name s = Return s \<and> AppendWriter writer s = s) \<and>
   (started s \<and> finalState (run ops s) = Some s' \<longrightarrow>
      started s' \<and> dirPathValue s' = dirPathValue s \<and> locationValue s' = locationValue s \<and>
      writersValue s' = writersValue s)"
proof -
  have a: "finalState (Println w v args s) = Some s1 \<longrightarrow> started s1"
    unfolding Println_def by (rule impI) (rule writeLine_frame(2))
  have b: "finalState (Printf w v format args s) = Some s2 \<longrightarrow> started s2"
    unfolding Printf_def by (rule impI) (rule writeLine_frame(2))
  have c: "started s \<longrightarrow>
      SetDir w path s = s \<and> SetTimezone w name s = Return s \<and> AppendWriter writer s = s"
    by (simp add: config_calls_started)
  have d: "started s \<and> finalState (run ops s) = Some s' \<longrightarrow>
      started s' \<and> dirPathValue s' = dirPathValue s \<and> locationValue s' = locationValue s \<and>
      writersValue s' = writersValue s"
  proof
    assume "started s \<and> finalState (run ops s) = Some s'"
    then have "started s' \<and> config s' = config s" using run_frozen by blast
    then show "started s' \<and> dirPathValue s' = dirPathValue s \<and>
      locationValue s' = locationValue s \<and> writersValue s' = writersValue s"
      by (simp add: config_def)
  qed
  from a b c d show ?thesis by blast
qed

theorem frozen_after_first_write_witness:
  "(\<exists>s1. finalState (Println exampleWorld Info [''hello''] (init exampleWorld)) = Some s1 \<and>
      started s1) \<and>
   (\<exists>s2. finalState (Printf exampleWorld Warning ''x=%d'' [''1''] (init exampleWorld)) = Some s2 \<and>
      started s2) \<and>
   started exampleStarted \<and>
   SetDir exampleWorld ''late'' exampleStarted = exampleStarted \<and>
   SetTimezone exampleWorld ''UTC'' exampleStarted = Return exampleStarted \<and>
   AppendWriter [7] exampleStarted = exampleStarted \<and>
   (\<exists>s'. finalState (run exampleLateCalls exampleStarted) = Some s' \<and> started s' \<and>
      dirPathValue s' = [] \<and> locationValue s' = locationValue exampleStarted \<and>
      writersValue s' = writersValue exampleStarted)"
proof -
  from init_writes_return obtain s1 s2 where
    r: "Println exampleWorld Info [''hello''] (init exampleWorld) = Return s1"
       "Printf exampleWorld Warning ''x=%d'' [''1''] (init exampleWorld) = Return s2"
    by blast
  from exampleLateCalls_run obtain s' where
    l: "run exampleLateCalls exampleStarted = Return s'" by blast
  have st: "started exampleStarted" by (rule exampleStarted_facts(1))
  note t1 = frozen_after_first_write[of exampleWorld Info "[''hello'']" "init exampleWorld" s1
      "''x=%d''" s1 "''late''" "''UTC''" "[7]" "[]" "init exampleWorld"]
  note t2 = frozen_after_first_write[of exampleWorld Warning "[''1'']" "init exampleWorld" s2
      "''x=%d''" s2 "''late''" "''UTC''" "[7]" "[]" "init exampleWorld"]
  note t3 = frozen_after_first_write[of exampleWorld Info "[]" exampleStarted s'
      "[]" s' "''late''" "''UTC''" "[7]" exampleLateCalls s']
  from t1 r(1) have c1: "started s1" by simp
  from t2 r(2) have c2: "started s2" by simp
  from t3 st l have c3: "SetDir exampleWorld ''late'' exampleStarted = exampleStarted"
    "SetTimezone exampleWorld ''UTC'' exampleStarted = Return exampleStarted"
    "AppendWriter [7] exampleStarted = exampleStarted"
    "started s'" "dirPathValue s' = dirPathValue exampleStarted"
    "locationValue s' = locationValue exampleStarted"
    "writersValue s' = writersValue exampleStarted"
    by simp_all
  from c1 r(1) have g1: "\<exists>s1. finalState (Println exampleWorld Info [''hello''] (init exampleWorld)) = Some s1 \<and> started s1"
    by simp
  from c2 r(2) have g2: "\<exists>s2. finalState (Printf exampleWorld Warning ''x=%d'' [''1''] (init exampleWorld)) = Some s2 \<and> started s2"
    by simp
  from c3 l exampleStarted_facts(3) have g3: "\<exists>s'. finalState (run exampleLateCalls exampleStarted) = Some s' \<and> started s' \<and>
      dirPathValue s' = [] \<and> locationValue s' = locationValue exampleStarted \<and>
      writersValue s' = writersValue exampleStarted"
    by simp
  from g1 g2 st c3(1,2,3) g3 show ?thesis by blast
qed

subsection \<open>C5: the rotation check is idempotent within a day\<close>

text \<open>
  C5. Calling \<^verbatim>\<open>rotateIfNeeded\<close> with a time whose day key is the current day key is
  a no-op, and so is a second call with a time of the same day as the first: the state
  is the same, so the file names of the four loggers are the same, no handle is closed
  (\<open>closedFiles\<close> is unchanged) and no initialized \<^verbatim>\<open>*log.Logger\<close> is cleared.
\<close>

theorem rotateIfNeeded_same_day_noop:
  "(dateFast s = dayKey now \<longrightarrow> rotateIfNeeded now s = s) \<and>
   (dayKey now2 = dayKey now1 \<longrightarrow>
      rotateIfNeeded now2 (rotateIfNeeded now1 s) = rotateIfNeeded now1 s)"
  using rotateIfNeeded_current rotateIfNeeded_twice by blast

theorem rotateIfNeeded_same_day_noop_witness:
  "dateFast exampleStarted = dayKey exampleTime \<and>
   rotateIfNeeded exampleTime exampleStarted = exampleStarted \<and>
   dayKey exampleLater = dayKey exampleTime \<and>
   rotateIfNeeded exampleLater (rotateIfNeeded exampleTime exampleStarted) =
     rotateIfNeeded exampleTime exampleStarted"
proof -
  note t = rotateIfNeeded_same_day_noop[of exampleStarted exampleTime exampleLater exampleTime]
  have k: "dayKey exampleLater = dayKey exampleTime"
    by (simp add: dayKey_exampleLater dayKey_example)
  from t exampleStarted_dates(1)
  have a: "rotateIfNeeded exampleTime exampleStarted = exampleStarted" by blast
  from t k
  have b: "rotateIfNeeded exampleLater (rotateIfNeeded exampleTime exampleStarted) =
     rotateIfNeeded exampleTime exampleStarted" by blast
  from exampleStarted_dates(1) a k b show ?thesis by blast
qed

subsection \<open>The configuration calls\<close>

lemma SetDir_empty: "SetDir w [] s = s"
  and SetTimezone_empty: "SetTimezone w [] s = Return s"
  and AppendWriter_empty: "AppendWriter [] s = s"
  by (simp_all add: SetDir_def SetTimezone_def AppendWriter_def)

lemma config_calls_latched:
  "setDirOnce s \<Longrightarrow> SetDir w path s = s"
  "setTimezoneOnce s \<Longrightarrow> SetTimezone w name s = Return s"
  "appendWriterOnce s \<Longrightarrow> AppendWriter writer s = s"
  by (simp_all add: SetDir_def SetTimezone_def AppendWriter_def)

lemma SetDir_effective:
  assumes "\<not> started s" "\<not> setDirOnce s" "path \<noteq> []" "MkdirAll w (filepath_Clean path)"
  shows "SetDir w path s =
     (rotateLocked (dayKey (Now w (locationValue s))) (s\<lparr>dirPathValue := filepath_Clean path\<rparr>))
       \<lparr>setDirOnce := True\<rparr>"
  using assms by (simp add: SetDir_def Let_def createLogger_def rotate'_def nowInLocation_def)

lemma SetDir_failed:
  assumes "\<not> started s" "\<not> setDirOnce s" "path \<noteq> []" "\<not> MkdirAll w (filepath_Clean path)"
  shows "SetDir w path s =
     s\<lparr>stderr := MkdirFailed (filepath_Clean path) # stderr s, setDirOnce := True\<rparr>"
  using assms by (simp add: SetDir_def Let_def)

lemma SetTimezone_effective:
  assumes "\<not> started s" "\<not> setTimezoneOnce s" "name \<noteq> []"
    "loc = (if name = ''Asia/Shanghai'' then Some (FixedZone ''Asia/Shanghai'' (8 * 3600))
            else LoadLocation w name)"
  shows "SetTimezone w name s =
     (case loc of
        None \<Rightarrow> Exit 1 (s\<lparr>stderr := LoadTimezoneFailed name # stderr s\<rparr>)
      | Some z \<Rightarrow>
          Return ((rotateLocked (dayKey (Now w z)) (s\<lparr>locationValue := z\<rparr>))
            \<lparr>setTimezoneOnce := True\<rparr>))"
  using assms
  by (cases "name = ''Asia/Shanghai''"; cases "LoadLocation w name")
    (simp_all add: SetTimezone_def Let_def rotate'_def nowInLocation_def)

lemma AppendWriter_effective:
  assumes "\<not> started s" "\<not> appendWriterOnce s" "writer \<noteq> []"
  shows "AppendWriter writer s = s\<lparr>writersValue := writer, appendWriterOnce := True\<rparr>"
  using assms by (simp add: AppendWriter_def)

lemma rotateLocked_fields [simp]:
  "dirPathValue (rotateLocked d s) = dirPathValue s"
  "locationValue (rotateLocked d s) = locationValue s"
  "writersValue (rotateLocked d s) = writersValue s"
  "started (rotateLocked d s) = started s"
  "setDirOnce (rotateLocked d s) = setDirOnce s"
  "setTimezoneOnce (rotateLocked d s) = setTimezoneOnce s"
  "appendWriterOnce (rotateLocked d s) = appendWriterOnce s"
  using rotateLocked_frame(1,2)[of d s] by (simp_all add: config_def latches_def)

lemma SetDir_fields:
  "started (SetDir w path s) = started s"
  "locationValue (SetDir w path s) = locationValue s"
  "writersValue (SetDir w path s) = writersValue s"
  "setTimezoneOnce (SetDir w path s) = setTimezoneOnce s"
  "appendWriterOnce (SetDir w path s) = appendWriterOnce s"
  "setDirOnce s \<Longrightarrow> setDirOnce (SetDir w path s)"
  by (simp_all add: SetDir_def Let_def createLogger_def rotate'_def)

lemma AppendWriter_fields:
  "started (AppendWriter writer s) = started s"
  "locationValue (AppendWriter writer s) = locationValue s"
  "dirPathValue (AppendWriter writer s) = dirPathValue s"
  "setTimezoneOnce (AppendWriter writer s) = setTimezoneOnce s"
  "setDirOnce (AppendWriter writer s) = setDirOnce s"
  "appendWriterOnce s \<Longrightarrow> appendWriterOnce (AppendWriter writer s)"
  by (simp_all add: AppendWriter_def)

lemma SetTimezone_fields:
  assumes "finalState (SetTimezone w name s) = Some s'"
  shows "started s' = started s \<and> dirPathValue s' = dirPathValue s \<and>
    writersValue s' = writersValue s \<and> setDirOnce s' = setDirOnce s \<and>
    appendWriterOnce s' = appendWriterOnce s \<and>
    (setTimezoneOnce s \<longrightarrow> setTimezoneOnce s' \<and> locationValue s' = locationValue s)"
proof -
  consider (noop) "SetTimezone w name s = Return s"
    | (eff) "\<not> started s" "\<not> setTimezoneOnce s" "name \<noteq> []"
    by (cases "name = []"; cases "started s"; cases "setTimezoneOnce s")
      (simp_all add: SetTimezone_def)
  then show ?thesis
  proof cases
    case noop
    with assms have "s' = s" by simp
    then show ?thesis by simp
  next
    case eff
    from SetTimezone_effective[OF eff refl, of w] assms eff(2)
    show ?thesis by (auto split: option.splits if_splits)
  qed
qed

lemma step_latched:
  assumes "finalState (step w x s) = Some s'"
  shows "(setDirOnce s \<longrightarrow> setDirOnce s' \<and> dirPathValue s' = dirPathValue s) \<and>
    (setTimezoneOnce s \<longrightarrow> setTimezoneOnce s' \<and> locationValue s' = locationValue s) \<and>
    (appendWriterOnce s \<longrightarrow> appendWriterOnce s' \<and> writersValue s' = writersValue s)"
proof (cases x)
  case (OpSetDir path)
  with assms have s': "s' = SetDir w path s" by simp
  show ?thesis
  proof (cases "setDirOnce s")
    case True
    then show ?thesis unfolding s' by (simp add: config_calls_latched)
  next
    case False
    then show ?thesis unfolding s' by (simp add: SetDir_fields)
  qed
next
  case (OpSetTimezone name)
  with assms SetTimezone_fields[of w name s s'] show ?thesis by simp
next
  case (OpAppendWriter writer)
  with assms have s': "s' = AppendWriter writer s" by simp
  show ?thesis
  proof (cases "appendWriterOnce s")
    case True
    then show ?thesis unfolding s' by (simp add: config_calls_latched)
  next
    case False
    then show ?thesis unfolding s' by (simp add: AppendWriter_fields)
  qed
next
  case (OpPrintln v args)
  with assms writeLine_frame[of w v _ s s'] show ?thesis by (simp add: Println_def config_def)
next
  case (OpPrintf v f args)
  with assms writeLine_frame[of w v _ s s'] show ?thesis by (simp add: Printf_def config_def)
next
  case (OpClose v)
  with assms Close_frame[of v s s'] show ?thesis by (simp add: latches_def config_def)
qed

lemma run_latched:
  "finalState (run ops s) = Some s' \<Longrightarrow>
    (setDirOnce s \<longrightarrow> setDirOnce s' \<and> dirPathValue s' = dirPathValue s) \<and>
    (setTimezoneOnce s \<longrightarrow> setTimezoneOnce s' \<and> locationValue s' = locationValue s) \<and>
    (appendWriterOnce s \<longrightarrow> appendWriterOnce s' \<and> writersValue s' = writersValue s)"
proof (induction ops arbitrary: s)
  case Nil
  then show ?case by simp
next
  case (Cons a ops)
  obtain w x where a: "a = (w, x)" by (cases a)
  show ?case
  proof (cases "step w x s")
    case (Return s1)
    with Cons.prems a have "finalState (run ops s1) = Some s'" by simp
    from Cons.IH[OF this] step_latched[of w x s s1] Return show ?thesis by simp
  next
    case (Exit c s1)
    with Cons.prems a have "s' = s1" by simp
    with Exit step_latched[of w x s s1] show ?thesis by simp
  next
    case Panic
    with Cons.prems a show ?thesis by simp
  qed
qed

subsection \<open>No call dereferences a nil logger\<close>

lemma Clean_examples:
  "filepath_Clean ''block/subdir'' = ''block/subdir''" "filepath_Clean ''d1/'' = ''d1''"
  "filepath_Clean ''logs'' = ''logs''" "filepath_Clean ''d2'' = ''d2''"
  by (simp_all add: filepath_Clean_def)

lemma Close_loggers_Some:
  "finalState (Close v s) = Some s' \<Longrightarrow> \<forall>u. loggers s u \<noteq> None \<Longrightarrow>
     \<forall>u. loggers s' u \<noteq> None"
  unfolding Close_def
  by (cases "loggers s v"; cases "fileH (the (loggers s v))") auto

lemma Close_no_panic: "loggers s v \<noteq> None \<Longrightarrow> Close v s \<noteq> Panic"
  unfolding Close_def
  by (cases "loggers s v"; cases "fileH (the (loggers s v))") auto

lemma step_loggers_Some:
  assumes "\<forall>u. loggers s u \<noteq> None" "finalState (step w x s) = Some s'"
  shows "\<forall>u. loggers s' u \<noteq> None"
proof (cases x)
  case (OpSetDir path)
  with assms(2) have s': "s' = SetDir w path s" by simp
  show ?thesis unfolding s' using assms(1)
    by (simp add: SetDir_def Let_def createLogger_def rotate'_def rotateLocked_loggers)
next
  case (OpSetTimezone name)
  with assms show ?thesis
    by (auto simp: SetTimezone_def Let_def rotate'_def rotateLocked_loggers
        split: if_splits option.splits)
next
  case (OpAppendWriter writer)
  with assms show ?thesis by (auto simp: AppendWriter_def)
next
  case (OpPrintln v args)
  let ?s2 = "rotateIfNeeded (nowInLocation w (freezeConfig s)) (freezeConfig s)"
  from assms(1) have all2: "\<forall>u. loggers ?s2 u \<noteq> None"
    using rotateIfNeeded_loggers_Some[of "freezeConfig s"] by simp
  from assms(2) OpPrintln obtain s3 where e: "finalState (ensureLoggerLocked w v ?s2) = Some s3"
    and s': "s' = s3 \<or> (\<exists>ws b. s' = multiWrite ws b s3)"
    by (auto simp: Println_def writeLine_def Let_def split: option.splits outcome.splits if_splits)
  from e all2 have "\<forall>u. loggers s3 u \<noteq> None"
    by (auto simp: ensureLoggerLocked_def Let_def split: option.splits if_splits)
  with s' show ?thesis by auto
next
  case (OpPrintf v f args)
  let ?s2 = "rotateIfNeeded (nowInLocation w (freezeConfig s)) (freezeConfig s)"
  from assms(1) have all2: "\<forall>u. loggers ?s2 u \<noteq> None"
    using rotateIfNeeded_loggers_Some[of "freezeConfig s"] by simp
  from assms(2) OpPrintf obtain s3 where e: "finalState (ensureLoggerLocked w v ?s2) = Some s3"
    and s': "s' = s3 \<or> (\<exists>ws b. s' = multiWrite ws b s3)"
    by (auto simp: Printf_def writeLine_def Let_def split: option.splits outcome.splits if_splits)
  from e all2 have "\<forall>u. loggers s3 u \<noteq> None"
    by (auto simp: ensureLoggerLocked_def Let_def split: option.splits if_splits)
  with s' show ?thesis by auto
next
  case (OpClose v)
  with assms Close_loggers_Some[of v s s'] show ?thesis by simp
qed

lemma step_no_panic:
  assumes "\<forall>u. loggers s u \<noteq> None" "\<forall>p. OpenFile w p"
  shows "step w x s \<noteq> Panic"
proof (cases x)
  case (OpPrintln v args)
  from writeLine_returns[OF assms] obtain s' where
    "writeLine w v (\<lambda>now lvl. printlnBytes now lvl args) s = Return s'" by blast
  with OpPrintln show ?thesis by (simp add: Println_def)
next
  case (OpPrintf v f args)
  from writeLine_returns[OF assms] obtain s' where
    "writeLine w v (\<lambda>now lvl. printfBytes w now lvl f args) s = Return s'" by blast
  with OpPrintf show ?thesis by (simp add: Printf_def)
next
  case (OpSetTimezone name)
  then show ?thesis
    by (auto simp: SetTimezone_def Let_def split: option.splits)
next
  case (OpClose v)
  with assms(1) Close_no_panic[of s v] show ?thesis by simp
qed simp_all

lemma run_no_panic:
  assumes "\<forall>u. loggers s u \<noteq> None" "\<forall>(w, x) \<in> set ops. \<forall>p. OpenFile w p"
  shows "\<exists>s'. finalState (run ops s) = Some s'"
  using assms
proof (induction ops arbitrary: s)
  case Nil
  then show ?case by simp
next
  case (Cons a ops)
  obtain w x where a: "a = (w, x)" by (cases a)
  with Cons.prems(2) have o: "\<forall>p. OpenFile w p" by simp
  show ?case
  proof (cases "step w x s")
    case (Return s1)
    with step_loggers_Some[OF Cons.prems(1), of w x s1] have "\<forall>u. loggers s1 u \<noteq> None" by simp
    from Cons.IH[OF this] Cons.prems(2) Return a show ?thesis by simp
  next
    case (Exit c s1)
    with a show ?thesis by simp
  next
    case Panic
    with step_no_panic[OF Cons.prems(1) o, of x] show ?thesis by simp
  qed
qed

lemma exampleConfigured_facts:
  "\<forall>u. loggers exampleConfigured u \<noteq> None"
  "setDirOnce exampleConfigured" "appendWriterOnce exampleConfigured"
  "dirPathValue exampleConfigured = ''d1''" "writersValue exampleConfigured = [1]"
  "\<not> started exampleConfigured"
proof -
  let ?i = "init exampleWorld"
  let ?d = "SetDir exampleWorld ''d1/'' ?i"
  have i: "\<forall>u. loggers ?i u \<noteq> None" by (simp add: init_loggers)
  have "finalState (step exampleWorld (OpSetDir ''d1/'') ?i) = Some ?d" by simp
  from step_loggers_Some[OF i this] have d: "\<forall>u. loggers ?d u \<noteq> None" .
  have "finalState (step exampleWorld (OpAppendWriter [1]) ?d) = Some exampleConfigured"
    by (simp add: exampleConfigured_def)
  from step_loggers_Some[OF d this] show "\<forall>u. loggers exampleConfigured u \<noteq> None" .
  have e: "?d = (rotateLocked (dayKey (Now exampleWorld (locationValue ?i)))
       (?i\<lparr>dirPathValue := filepath_Clean ''d1/''\<rparr>))\<lparr>setDirOnce := True\<rparr>"
    by (rule SetDir_effective) (simp_all add: init_fields Clean_examples)
  have dd: "setDirOnce ?d" "dirPathValue ?d = ''d1''" "\<not> started ?d" "\<not> appendWriterOnce ?d"
    unfolding e by (simp_all add: Clean_examples init_fields)
  have a: "exampleConfigured = ?d\<lparr>writersValue := [1], appendWriterOnce := True\<rparr>"
    unfolding exampleConfigured_def by (rule AppendWriter_effective) (simp_all add: dd)
  show "setDirOnce exampleConfigured" "appendWriterOnce exampleConfigured"
    "dirPathValue exampleConfigured = ''d1''" "writersValue exampleConfigured = [1]"
    "\<not> started exampleConfigured"
    unfolding a using dd by simp_all
qed

subsection \<open>C3: the first configuration call wins\<close>

text \<open>
  C3. For each of \<^verbatim>\<open>SetDir\<close>, \<^verbatim>\<open>SetTimezone\<close> and \<^verbatim>\<open>AppendWriter\<close>, only the first
  call made before any write with a non-empty argument takes effect; every later call of the
  same function, before or after the first write, leaves the configuration unchanged.
  \<^verbatim>\<open>SetDir(A)\<close> followed by \<^verbatim>\<open>SetDir(B)\<close> before any write gives the directory of
  \<open>A\<close>, never that of \<open>B\<close>. The theorem states, for a state that has not started and
  whose one-shot has not fired: the first call with a non-empty argument fires the
  one-shot, and a second call returns the state unchanged; the directory is then the
  cleaned \<open>A\<close> when \<open>A\<close> could be created, the timezone is the one the name resolves
  to, the extra writers are those of the first call. And over any run of calls, a
  function whose one-shot has fired never changes its value again.
\<close>

theorem first_configuration_call_wins:
  "(\<not> started s \<and> \<not> setDirOnce s \<and> A \<noteq> [] \<longrightarrow>
      setDirOnce (SetDir w A s) \<and> SetDir w2 B (SetDir w A s) = SetDir w A s \<and>
      (MkdirAll w (filepath_Clean A) \<longrightarrow>
         dirPathValue (SetDir w2 B (SetDir w A s)) = filepath_Clean A)) \<and>
   (\<not> started s \<and> \<not> setTimezoneOnce s \<and> name \<noteq> [] \<and> SetTimezone w name s = Return s1 \<longrightarrow>
      setTimezoneOnce s1 \<and> SetTimezone w2 name2 s1 = Return s1 \<and>
      Some (locationValue s1) =
        (if name = ''Asia/Shanghai'' then Some (FixedZone ''Asia/Shanghai'' (8 * 3600))
         else LoadLocation w name)) \<and>
   (\<not> started s \<and> \<not> appendWriterOnce s \<and> writer \<noteq> [] \<longrightarrow>
      appendWriterOnce (AppendWriter writer s) \<and>
      AppendWriter writer2 (AppendWriter writer s) = AppendWriter writer s \<and>
      writersValue (AppendWriter writer2 (AppendWriter writer s)) = writer) \<and>
   (finalState (run ops s) = Some s' \<longrightarrow>
      (setDirOnce s \<longrightarrow> setDirOnce s' \<and> dirPathValue s' = dirPathValue s) \<and>
      (setTimezoneOnce s \<longrightarrow> setTimezoneOnce s' \<and> locationValue s' = locationValue s) \<and>
      (appendWriterOnce s \<longrightarrow> appendWriterOnce s' \<and> writersValue s' = writersValue s))"
proof -
  have dir: "\<not> started s \<and> \<not> setDirOnce s \<and> A \<noteq> [] \<longrightarrow>
      setDirOnce (SetDir w A s) \<and> SetDir w2 B (SetDir w A s) = SetDir w A s \<and>
      (MkdirAll w (filepath_Clean A) \<longrightarrow>
         dirPathValue (SetDir w2 B (SetDir w A s)) = filepath_Clean A)"
  proof
    assume h: "\<not> started s \<and> \<not> setDirOnce s \<and> A \<noteq> []"
    have once: "setDirOnce (SetDir w A s)"
    proof (cases "MkdirAll w (filepath_Clean A)")
      case True
      with h show ?thesis by (simp add: SetDir_effective)
    next
      case False
      with h show ?thesis by (simp add: SetDir_failed)
    qed
    then have same: "SetDir w2 B (SetDir w A s) = SetDir w A s"
      by (rule config_calls_latched(1))
    have "MkdirAll w (filepath_Clean A) \<longrightarrow> dirPathValue (SetDir w A s) = filepath_Clean A"
      using h by (simp add: SetDir_effective)
    with once same show "setDirOnce (SetDir w A s) \<and> SetDir w2 B (SetDir w A s) = SetDir w A s \<and>
      (MkdirAll w (filepath_Clean A) \<longrightarrow>
         dirPathValue (SetDir w2 B (SetDir w A s)) = filepath_Clean A)"
      by simp
  qed
  have tz: "\<not> started s \<and> \<not> setTimezoneOnce s \<and> name \<noteq> [] \<and> SetTimezone w name s = Return s1 \<longrightarrow>
      setTimezoneOnce s1 \<and> SetTimezone w2 name2 s1 = Return s1 \<and>
      Some (locationValue s1) =
        (if name = ''Asia/Shanghai'' then Some (FixedZone ''Asia/Shanghai'' (8 * 3600))
         else LoadLocation w name)"
  proof
    assume h: "\<not> started s \<and> \<not> setTimezoneOnce s \<and> name \<noteq> [] \<and> SetTimezone w name s = Return s1"
    then have a: "\<not> started s" and b: "\<not> setTimezoneOnce s" and c: "name \<noteq> []"
      and r: "SetTimezone w name s = Return s1"
      by simp_all
    from SetTimezone_effective[OF a b c refl, of w] r
    have e: "setTimezoneOnce s1 \<and> Some (locationValue s1) =
        (if name = ''Asia/Shanghai'' then Some (FixedZone ''Asia/Shanghai'' (8 * 3600))
         else LoadLocation w name)"
      by (auto split: option.splits if_splits)
    then have "SetTimezone w2 name2 s1 = Return s1" by (simp add: config_calls_latched(2))
    with e show "setTimezoneOnce s1 \<and> SetTimezone w2 name2 s1 = Return s1 \<and>
      Some (locationValue s1) =
        (if name = ''Asia/Shanghai'' then Some (FixedZone ''Asia/Shanghai'' (8 * 3600))
         else LoadLocation w name)"
      by simp
  qed
  have wr: "\<not> started s \<and> \<not> appendWriterOnce s \<and> writer \<noteq> [] \<longrightarrow>
      appendWriterOnce (AppendWriter writer s) \<and>
      AppendWriter writer2 (AppendWriter writer s) = AppendWriter writer s \<and>
      writersValue (AppendWriter writer2 (AppendWriter writer s)) = writer"
    by (simp add: AppendWriter_effective config_calls_latched(3))
  have rn: "finalState (run ops s) = Some s' \<longrightarrow>
      (setDirOnce s \<longrightarrow> setDirOnce s' \<and> dirPathValue s' = dirPathValue s) \<and>
      (setTimezoneOnce s \<longrightarrow> setTimezoneOnce s' \<and> locationValue s' = locationValue s) \<and>
      (appendWriterOnce s \<longrightarrow> appendWriterOnce s' \<and> writersValue s' = writersValue s)"
    using run_latched by blast
  from dir tz wr rn show ?thesis by blast
qed

theorem first_configuration_call_wins_witness:
  "\<not> started (init exampleWorld) \<and> \<not> setDirOnce (init exampleWorld) \<and>
   MkdirAll exampleWorld (filepath_Clean ''d1/'') \<and>
   SetDir exampleWorld ''d2'' (SetDir exampleWorld ''d1/'' (init exampleWorld)) =
     SetDir exampleWorld ''d1/'' (init exampleWorld) \<and>
   dirPathValue (SetDir exampleWorld ''d2'' (SetDir exampleWorld ''d1/'' (init exampleWorld))) = ''d1'' \<and>
   (\<exists>s1. SetTimezone exampleWorld ''UTC'' (init exampleWorld) = Return s1 \<and>
      SetTimezone exampleWorld ''Asia/Shanghai'' s1 = Return s1 \<and>
      locationValue s1 = LoadedZone ''UTC'') \<and>
   writersValue (AppendWriter [2] (AppendWriter [1] (init exampleWorld))) = [1] \<and>
   (\<exists>s'. finalState (run exampleMixedCalls exampleConfigured) = Some s' \<and>
      dirPathValue s' = ''d1'' \<and> writersValue s' = [1])"
proof -
  let ?i = "init exampleWorld"
  have pre: "\<not> started ?i" "\<not> setDirOnce ?i" "\<not> setTimezoneOnce ?i" "\<not> appendWriterOnce ?i"
    by (simp_all add: init_fields)
  have mk: "MkdirAll exampleWorld (filepath_Clean ''d1/'')" by (simp add: Clean_examples)
  obtain s1 where s1: "SetTimezone exampleWorld ''UTC'' ?i = Return s1"
    using SetTimezone_effective[OF pre(1) pre(3), of "''UTC''" _ exampleWorld] by simp
  have op: "\<forall>(w, x) \<in> set exampleMixedCalls. \<forall>p. OpenFile w p"
    by (simp add: exampleMixedCalls_def exampleWorld_def)
  from run_no_panic[OF exampleConfigured_facts(1) op] obtain s' where
    s': "finalState (run exampleMixedCalls exampleConfigured) = Some s'" by blast
  note t1 = first_configuration_call_wins[where s = ?i and A = "''d1/''" and w = exampleWorld
      and ?w2.0 = exampleWorld and B = "''d2''" and name = "''UTC''" and ?s1.0 = s1
      and ?name2.0 = "''Asia/Shanghai''" and writer = "[1]" and ?writer2.0 = "[2]"
      and ops = "[]" and s' = ?i]
  note t2 = first_configuration_call_wins[where s = exampleConfigured and A = "''d1/''"
      and w = exampleWorld and ?w2.0 = exampleWorld and B = "''d2''" and name = "''UTC''"
      and ?s1.0 = s1 and ?name2.0 = "''Asia/Shanghai''" and writer = "[1]" and ?writer2.0 = "[2]"
      and ops = exampleMixedCalls and s' = s']
  have neA: "''d1/'' \<noteq> []" by simp
  from t1 pre mk neA have g1a:
    "SetDir exampleWorld ''d2'' (SetDir exampleWorld ''d1/'' ?i) = SetDir exampleWorld ''d1/'' ?i"
    and g1b: "dirPathValue (SetDir exampleWorld ''d2'' (SetDir exampleWorld ''d1/'' ?i)) =
      filepath_Clean ''d1/''"
    by blast+
  from g1b have g1c: "dirPathValue (SetDir exampleWorld ''d2'' (SetDir exampleWorld ''d1/'' ?i)) = ''d1''"
    by (simp only: Clean_examples)
  note g1 = g1a g1c
  have ne: "''UTC'' \<noteq> []" "''UTC'' \<noteq> ''Asia/Shanghai''" "[1::nat] \<noteq> []" by simp_all
  from t1 pre s1 ne have g2a: "SetTimezone exampleWorld ''Asia/Shanghai'' s1 = Return s1"
    and g2b: "Some (locationValue s1) =
      (if ''UTC'' = ''Asia/Shanghai'' then Some (FixedZone ''Asia/Shanghai'' (8 * 3600))
       else LoadLocation exampleWorld ''UTC'')"
    by blast+
  from g2b have g2c: "locationValue s1 = LoadedZone ''UTC''" by simp
  note g2 = g2a g2c
  from t1 pre ne have g3: "writersValue (AppendWriter [2] (AppendWriter [1] ?i)) = [1]" by blast
  from t2 s' exampleConfigured_facts(2,3) have
    "dirPathValue s' = dirPathValue exampleConfigured"
    "writersValue s' = writersValue exampleConfigured"
    by blast+
  then have g4: "dirPathValue s' = ''d1''" "writersValue s' = [1]"
    by (simp_all only: exampleConfigured_facts)
  from g2 s1 have e2: "\<exists>s1. SetTimezone exampleWorld ''UTC'' ?i = Return s1 \<and>
      SetTimezone exampleWorld ''Asia/Shanghai'' s1 = Return s1 \<and>
      locationValue s1 = LoadedZone ''UTC''" by simp
  from g4 s' have e4: "\<exists>s'. finalState (run exampleMixedCalls exampleConfigured) = Some s' \<and>
      dirPathValue s' = ''d1'' \<and> writersValue s' = [1]" by simp
  from pre(1,2) mk g1 e2 g3 e4 show ?thesis by blast
qed

subsection \<open>C8: an invalid timezone name ends the process\<close>

text \<open>
  C8. \<^verbatim>\<open>SetTimezone\<close> with a name that cannot be loaded and is not the built-in
  \<^verbatim>\<open>Asia/Shanghai\<close> ends the process with status 1 after printing a diagnostic that names
  the failure; nothing is returned to the caller and nothing is retried. With the built-in
  name it succeeds whatever the timezone database answers. Both parts are about a call that
  reaches the resolution of the name: made before any write, with the one-shot of
  \<^verbatim>\<open>SetTimezone\<close> not yet fired.
\<close>

theorem SetTimezone_invalid_name_exits:
  "(\<not> started s \<and> \<not> setTimezoneOnce s \<and> name \<noteq> [] \<and> name \<noteq> ''Asia/Shanghai'' \<and>
      LoadLocation w name = None \<longrightarrow>
      SetTimezone w name s = Exit 1 (s\<lparr>stderr := LoadTimezoneFailed name # stderr s\<rparr>)) \<and>
   (\<not> started s \<and> \<not> setTimezoneOnce s \<longrightarrow>
      (\<exists>s'. SetTimezone w ''Asia/Shanghai'' s = Return s' \<and> setTimezoneOnce s' \<and>
         locationValue s' = FixedZone ''Asia/Shanghai'' (8 * 3600)) \<and>
      SetTimezone (w\<lparr>LoadLocation := db\<rparr>) ''Asia/Shanghai'' s = SetTimezone w ''Asia/Shanghai'' s)"
proof -
  have a: "\<not> started s \<and> \<not> setTimezoneOnce s \<and> name \<noteq> [] \<and> name \<noteq> ''Asia/Shanghai'' \<and>
      LoadLocation w name = None \<longrightarrow>
      SetTimezone w name s = Exit 1 (s\<lparr>stderr := LoadTimezoneFailed name # stderr s\<rparr>)"
    by (simp add: SetTimezone_def)
  have b: "\<not> started s \<and> \<not> setTimezoneOnce s \<longrightarrow>
      (\<exists>s'. SetTimezone w ''Asia/Shanghai'' s = Return s' \<and> setTimezoneOnce s' \<and>
         locationValue s' = FixedZone ''Asia/Shanghai'' (8 * 3600))"
  proof
    assume h: "\<not> started s \<and> \<not> setTimezoneOnce s"
    then have h1: "\<not> started s" and h2: "\<not> setTimezoneOnce s" by simp_all
    have n: "''Asia/Shanghai'' \<noteq> []" by simp
    from SetTimezone_effective[OF h1 h2 n refl, of w]
    show "\<exists>s'. SetTimezone w ''Asia/Shanghai'' s = Return s' \<and> setTimezoneOnce s' \<and>
         locationValue s' = FixedZone ''Asia/Shanghai'' (8 * 3600)"
      by simp
  qed
  have c: "SetTimezone (w\<lparr>LoadLocation := db\<rparr>) ''Asia/Shanghai'' s = SetTimezone w ''Asia/Shanghai'' s"
    by (simp add: SetTimezone_def nowInLocation_def)
  from a b c show ?thesis by blast
qed

theorem SetTimezone_invalid_name_exits_witness:
  "\<not> started (init exampleWorld) \<and> \<not> setTimezoneOnce (init exampleWorld) \<and>
   LoadLocation exampleWorld ''Invalid/Zone'' = None \<and>
   SetTimezone exampleWorld ''Invalid/Zone'' (init exampleWorld) =
     Exit 1 ((init exampleWorld)\<lparr>stderr :=
       LoadTimezoneFailed ''Invalid/Zone'' # stderr (init exampleWorld)\<rparr>) \<and>
   (\<exists>s'. SetTimezone exampleWorld ''Asia/Shanghai'' (init exampleWorld) = Return s' \<and>
      setTimezoneOnce s' \<and> locationValue s' = FixedZone ''Asia/Shanghai'' (8 * 3600)) \<and>
   SetTimezone (exampleWorld\<lparr>LoadLocation := (\<lambda>n. None)\<rparr>) ''Asia/Shanghai'' (init exampleWorld) =
     SetTimezone exampleWorld ''Asia/Shanghai'' (init exampleWorld)"
proof -
  let ?i = "init exampleWorld"
  have pre: "\<not> started ?i" "\<not> setTimezoneOnce ?i" by (simp_all add: init_fields)
  have n: "''Invalid/Zone'' \<noteq> []" "''Invalid/Zone'' \<noteq> ''Asia/Shanghai''"
    "LoadLocation exampleWorld ''Invalid/Zone'' = None"
    by simp_all
  note t = SetTimezone_invalid_name_exits[where s = ?i and name = "''Invalid/Zone''"
      and w = exampleWorld and db = "\<lambda>n. None"]
  from t pre n show ?thesis by blast
qed

subsection \<open>C9: an empty argument does not use up the one-shot\<close>

text \<open>
  C9. A configuration call with an empty argument (\<^verbatim>\<open>SetDir("")\<close>, \<^verbatim>\<open>SetTimezone("")\<close>,
  \<^verbatim>\<open>AppendWriter()\<close> with no writer) returns before the one-shot fires: the state is
  unchanged, and a later call of the same function before any write, with a non-empty
  argument, still takes effect.
\<close>

theorem empty_argument_keeps_one_shot:
  "SetDir w [] s = s \<and> SetTimezone w [] s = Return s \<and> AppendWriter [] s = s \<and>
   (\<not> started s \<and> \<not> setDirOnce s \<and> path \<noteq> [] \<and> MkdirAll w2 (filepath_Clean path) \<longrightarrow>
      run [(w, OpSetDir []), (w2, OpSetDir path)] s = Return (SetDir w2 path s) \<and>
      dirPathValue (SetDir w2 path s) = filepath_Clean path) \<and>
   (\<not> started s \<and> \<not> setTimezoneOnce s \<and> name \<noteq> [] \<and>
      (if name = ''Asia/Shanghai'' then Some (FixedZone ''Asia/Shanghai'' (8 * 3600))
       else LoadLocation w2 name) = Some z \<longrightarrow>
      (\<exists>s'. run [(w, OpSetTimezone []), (w2, OpSetTimezone name)] s = Return s' \<and>
         locationValue s' = z)) \<and>
   (\<not> started s \<and> \<not> appendWriterOnce s \<and> writer \<noteq> [] \<longrightarrow>
      run [(w, OpAppendWriter []), (w2, OpAppendWriter writer)] s = Return (AppendWriter writer s) \<and>
      writersValue (AppendWriter writer s) = writer)"
proof -
  have e: "SetDir w [] s = s" "SetTimezone w [] s = Return s" "AppendWriter [] s = s"
    by (rule SetDir_empty SetTimezone_empty AppendWriter_empty)+
  have d: "\<not> started s \<and> \<not> setDirOnce s \<and> path \<noteq> [] \<and> MkdirAll w2 (filepath_Clean path) \<longrightarrow>
      run [(w, OpSetDir []), (w2, OpSetDir path)] s = Return (SetDir w2 path s) \<and>
      dirPathValue (SetDir w2 path s) = filepath_Clean path"
    by (simp add: e SetDir_effective)
  have t: "\<not> started s \<and> \<not> setTimezoneOnce s \<and> name \<noteq> [] \<and>
      (if name = ''Asia/Shanghai'' then Some (FixedZone ''Asia/Shanghai'' (8 * 3600))
       else LoadLocation w2 name) = Some z \<longrightarrow>
      (\<exists>s'. run [(w, OpSetTimezone []), (w2, OpSetTimezone name)] s = Return s' \<and>
         locationValue s' = z)"
  proof
    assume h: "\<not> started s \<and> \<not> setTimezoneOnce s \<and> name \<noteq> [] \<and>
      (if name = ''Asia/Shanghai'' then Some (FixedZone ''Asia/Shanghai'' (8 * 3600))
       else LoadLocation w2 name) = Some z"
    then have h1: "\<not> started s" and h2: "\<not> setTimezoneOnce s" and h3: "name \<noteq> []"
      and h4: "Some z = (if name = ''Asia/Shanghai'' then Some (FixedZone ''Asia/Shanghai'' (8 * 3600))
       else LoadLocation w2 name)"
      by simp_all
    from SetTimezone_effective[OF h1 h2 h3 h4]
    show "\<exists>s'. run [(w, OpSetTimezone []), (w2, OpSetTimezone name)] s = Return s' \<and>
         locationValue s' = z"
      by (simp add: e)
  qed
  have a: "\<not> started s \<and> \<not> appendWriterOnce s \<and> writer \<noteq> [] \<longrightarrow>
      run [(w, OpAppendWriter []), (w2, OpAppendWriter writer)] s = Return (AppendWriter writer s) \<and>
      writersValue (AppendWriter writer s) = writer"
    by (simp add: e AppendWriter_effective)
  from e d t a show ?thesis by blast
qed

theorem empty_argument_keeps_one_shot_witness:
  "\<not> started (init exampleWorld) \<and> \<not> setDirOnce (init exampleWorld) \<and>
   \<not> setTimezoneOnce (init exampleWorld) \<and> \<not> appendWriterOnce (init exampleWorld) \<and>
   MkdirAll exampleWorld (filepath_Clean ''logs'') \<and>
   run [(exampleWorld, OpSetDir []), (exampleWorld, OpSetDir ''logs'')] (init exampleWorld) =
     Return (SetDir exampleWorld ''logs'' (init exampleWorld)) \<and>
   dirPathValue (SetDir exampleWorld ''logs'' (init exampleWorld)) = ''logs'' \<and>
   (\<exists>s'. run [(exampleWorld, OpSetTimezone []), (exampleWorld, OpSetTimezone ''UTC'')]
            (init exampleWorld) = Return s' \<and> locationValue s' = LoadedZone ''UTC'') \<and>
   run [(exampleWorld, OpAppendWriter []), (exampleWorld, OpAppendWriter [1])] (init exampleWorld) =
     Return (AppendWriter [1] (init exampleWorld)) \<and>
   writersValue (AppendWriter [1] (init exampleWorld)) = [1]"
proof -
  let ?i = "init exampleWorld"
  have pre: "\<not> started ?i" "\<not> setDirOnce ?i" "\<not> setTimezoneOnce ?i" "\<not> appendWriterOnce ?i"
    by (simp_all add: init_fields)
  have mk: "MkdirAll exampleWorld (filepath_Clean ''logs'')" by (simp add: Clean_examples)
  have ne: "''logs'' \<noteq> []" "''UTC'' \<noteq> []" "[1::nat] \<noteq> []" by simp_all
  have z: "(if ''UTC'' = ''Asia/Shanghai'' then Some (FixedZone ''Asia/Shanghai'' (8 * 3600))
       else LoadLocation exampleWorld ''UTC'') = Some (LoadedZone ''UTC'')" by simp
  note t = empty_argument_keeps_one_shot[where s = ?i and w = exampleWorld and ?w2.0 = exampleWorld
      and path = "''logs''" and name = "''UTC''" and z = "LoadedZone ''UTC''" and writer = "[1]"]
  from t pre mk ne have g1:
    "run [(exampleWorld, OpSetDir []), (exampleWorld, OpSetDir ''logs'')] ?i =
       Return (SetDir exampleWorld ''logs'' ?i)"
    and g1b: "dirPathValue (SetDir exampleWorld ''logs'' ?i) = filepath_Clean ''logs''"
    by blast+
  from g1b have g1c: "dirPathValue (SetDir exampleWorld ''logs'' ?i) = ''logs''"
    by (simp only: Clean_examples)
  from t pre ne z have g2: "\<exists>s'. run [(exampleWorld, OpSetTimezone []),
      (exampleWorld, OpSetTimezone ''UTC'')] ?i = Return s' \<and> locationValue s' = LoadedZone ''UTC''"
    by blast
  from t pre ne have g3:
    "run [(exampleWorld, OpAppendWriter []), (exampleWorld, OpAppendWriter [1])] ?i =
       Return (AppendWriter [1] ?i)"
    "writersValue (AppendWriter [1] ?i) = [1]"
    by blast+
  from pre mk g1 g1c g2 g3 show ?thesis by blast
qed

subsection \<open>C10: a failed directory creation uses up the one-shot\<close>

text \<open>
  C10. \<^verbatim>\<open>SetDir\<close> uses up its one-shot even when the directory cannot be created: after
  a \<^verbatim>\<open>SetDir(P)\<close> before any write whose \<^verbatim>\<open>MkdirAll\<close> fails, a later \<^verbatim>\<open>SetDir(Q)\<close>
  is ignored, whether \<open>Q\<close> can be created or not, and the directory stays what it
  was (unset) over every later run of calls.
\<close>

theorem SetDir_failure_uses_up_one_shot:
  "\<not> started s \<and> \<not> setDirOnce s \<and> P \<noteq> [] \<and> \<not> MkdirAll w (filepath_Clean P) \<longrightarrow>
     setDirOnce (SetDir w P s) \<and> dirPathValue (SetDir w P s) = dirPathValue s \<and>
     SetDir w2 Q (SetDir w P s) = SetDir w P s \<and>
     (finalState (run ops (SetDir w P s)) = Some s' \<longrightarrow> dirPathValue s' = dirPathValue s)"
proof
  assume h: "\<not> started s \<and> \<not> setDirOnce s \<and> P \<noteq> [] \<and> \<not> MkdirAll w (filepath_Clean P)"
  then have f: "SetDir w P s = s\<lparr>stderr := MkdirFailed (filepath_Clean P) # stderr s, setDirOnce := True\<rparr>"
    by (simp add: SetDir_failed)
  then have a: "setDirOnce (SetDir w P s)" and b: "dirPathValue (SetDir w P s) = dirPathValue s"
    by simp_all
  from a have c: "SetDir w2 Q (SetDir w P s) = SetDir w P s" by (rule config_calls_latched(1))
  have d: "finalState (run ops (SetDir w P s)) = Some s' \<longrightarrow> dirPathValue s' = dirPathValue s"
    using run_latched[of ops "SetDir w P s" s'] a b by simp
  from a b c d show "setDirOnce (SetDir w P s) \<and> dirPathValue (SetDir w P s) = dirPathValue s \<and>
     SetDir w2 Q (SetDir w P s) = SetDir w P s \<and>
     (finalState (run ops (SetDir w P s)) = Some s' \<longrightarrow> dirPathValue s' = dirPathValue s)"
    by blast
qed

end
